theory Spec2Isabelle
  imports Complex_Main
begin

section \<open>The arm controller of \<open>jetson/ra_kinematics/mrover_arm.cpp\<close>\<close>

text \<open>
  The controller class \<open>MRoverArm\<close> is embedded as a record that is passed through every
  handler and returned updated, together with the list of effects the handler produced
  (messages published, calls into the solver and the planner). The C++ \<open>double\<close> is
  modelled as \<open>real\<close>: rounding is not modelled, and the one place where the code relies
  on an IEEE infinity (a division by zero in the executor) is a branch of its own.
  The unqualified \<open>abs\<close> of the source is taken to be \<open>std::abs\<close> on doubles. Output to
  \<open>std::cout\<close> and the sleeps of the loops are not modelled, and each handler runs to its end
  on the controller it is given: the interleaving of the threads is not modelled.
\<close>

subsection \<open>Tuning constants\<close>

text \<open>
  The constants are declared in \<open>mrover_arm.hpp\<close>, which is not among the sources: they are
  parameters of every function that reads one.
\<close>

record constants =
  MAX_NUM_PREV_ANGLES :: nat
  MAX_FISHY_VALS :: nat
  ENCODER_ERROR_THRESHOLD :: real
  DUD_ENCODER_EPSILON :: real
  ACCEPTABLE_BEYOND_LIMIT :: real
  D_SPLINE_T :: real
  SPLINE_WAIT_TIME :: real

subsection \<open>The arm model\<close>

type_synonym mat4 = "real list list"

text \<open>
  Modelled from the spec: the class \<open>ArmState\<close> (\<open>arm_state.hpp\<close>) is missing. The spec's
  ArmModel carries, per joint, the limits, the maximum speed, the encoder offset and
  multiplier and the lock flag, and holds the current angles and the cached transforms.
  The accessors the controller calls read these fields.
\<close>

record ArmState =
  joint_angles :: "real list"
  joint_limits :: "(real \<times> real) list"
  joint_max_speed :: "real list"
  joint_encoder_offset :: "real list"
  joint_encoder_multiplier :: "real list"
  joint_locked :: "bool list"
  joint_transform :: "mat4 list"

definition get_joint_angles :: "ArmState \<Rightarrow> real list" where
  "get_joint_angles st = joint_angles st"

definition get_joint_angle :: "ArmState \<Rightarrow> nat \<Rightarrow> real" where
  "get_joint_angle st i = joint_angles st ! i"

definition get_joint_limits :: "ArmState \<Rightarrow> nat \<Rightarrow> real \<times> real" where
  "get_joint_limits st i = joint_limits st ! i"

definition get_joint_max_speed :: "ArmState \<Rightarrow> nat \<Rightarrow> real" where
  "get_joint_max_speed st i = joint_max_speed st ! i"

definition get_joint_encoder_offset :: "ArmState \<Rightarrow> nat \<Rightarrow> real" where
  "get_joint_encoder_offset st i = joint_encoder_offset st ! i"

definition get_joint_encoder_multiplier :: "ArmState \<Rightarrow> nat \<Rightarrow> real" where
  "get_joint_encoder_multiplier st i = joint_encoder_multiplier st ! i"

definition set_joint_locked :: "ArmState \<Rightarrow> nat \<Rightarrow> bool \<Rightarrow> ArmState" where
  "set_joint_locked st i b = st\<lparr>joint_locked := (joint_locked st)[i := b]\<rparr>"

subsection \<open>Messages and effects\<close>

record ArmPosition =
  joint_a :: real
  joint_b :: real
  joint_c :: real
  joint_d :: real
  joint_e :: real
  joint_f :: real

record TargetOrientation =
  pos_x :: real
  pos_y :: real
  pos_z :: real
  rot_alpha :: real
  rot_beta :: real
  rot_gamma :: real
  use_orientation :: bool

text \<open>
  The fields \<open>x\<close>, \<open>y\<close>, \<open>z\<close>, \<open>alpha\<close>, \<open>beta\<close>, \<open>gamma\<close> of the target message carry a
  prefix here, so that these names stay free for variables.
\<close>

record LockJoints =
  jointa :: bool
  jointb :: bool
  jointc :: bool
  jointd :: bool
  jointe :: bool
  jointf :: bool

text \<open>
  What a handler does to the outside, in order: a message on \<open>/debug_message\<close>
  (\<open>isError\<close>, \<open>message\<close>), the six matrices on \<open>/fk_transform\<close>, a joint vector on a named
  channel (\<open>publish_config\<close>), and the calls into the solver and the planner.
\<close>

datatype effect =
    Debug_message bool string
  | Fk_transform "mat4 list"
  | Config string "real list"
  | Call_IK bool
  | Call_rrt_connect
  | Call_get_spline_pos real

subsection \<open>Collaborators\<close>

text \<open>
  The solver (\<open>KinematicsSolver\<close>, declared in \<open>kinematics.hpp\<close>, not defined in the sources),
  the planner (\<open>MotionPlanner\<close>), \<open>ArmState::set_joint_angles\<close> and \<open>std::to_string\<close> on a
  double are parameters. \<open>'k\<close> is the solver's own state (its backup stack and random
  generator), threaded through \<open>IK\<close>; \<open>'p\<close> is the planner's (the tree and the spline).
  \<open>FK\<close> and \<open>IK\<close> take the arm state by reference and return it updated; \<open>is_safe\<close> is taken
  to only read it.
\<close>

record ('k, 'p) collaborators =
  FK :: "ArmState \<Rightarrow> ArmState"
  is_safe :: "ArmState \<Rightarrow> bool"
  IK :: "'k \<Rightarrow> ArmState \<Rightarrow> real list \<Rightarrow> bool \<Rightarrow> bool \<Rightarrow> 'k \<times> ArmState \<times> real list \<times> bool"
  rrt_connect :: "'p \<Rightarrow> ArmState \<Rightarrow> real list \<Rightarrow> 'p \<times> ArmState \<times> bool"
  get_spline_pos :: "'p \<Rightarrow> real \<Rightarrow> real list"
  set_joint_angles :: "ArmState \<Rightarrow> real list \<Rightarrow> ArmState"
  to_string_double :: "real \<Rightarrow> string"

subsection \<open>The controller\<close>

text \<open>
  The members of \<open>MRoverArm\<close> that the handlers read or write. \<open>spline_t\<close> is the local of
  \<open>execute_spline\<close> that lives across the iterations of its loop. \<open>prev_angles\<close> holds, per
  joint, the deque of recent readings, newest first.
\<close>

record ('k, 'p) MRoverArm =
  state :: ArmState
  solver :: 'k
  motion_planner :: 'p
  enable_execute :: bool
  sim_mode :: bool
  ik_enabled :: bool
  previewing :: bool
  arm_control_state :: string
  encoder_error :: bool
  encoder_error_message :: string
  prev_angles :: "real list list"
  faulty_encoders :: "bool list"
  DUD_ENCODER_VALUES :: "real list"
  spline_t :: real

text \<open>
  The constructor: empty windows, no joint faulty, the dud value \<open>0.0\<close>. It does not
  initialise \<open>encoder_error\<close>, whose first value is therefore a parameter.
\<close>

definition MRoverArm_init :: "ArmState \<Rightarrow> 'k \<Rightarrow> 'p \<Rightarrow> bool \<Rightarrow> ('k, 'p) MRoverArm" where
  "MRoverArm_init geom k p err0 =
     \<lparr>state = geom, solver = k, motion_planner = p,
      enable_execute = False, sim_mode = True, ik_enabled = False, previewing = False,
      arm_control_state = ''idle'',
      encoder_error = err0, encoder_error_message = [],
      prev_angles = replicate 6 [], faulty_encoders = replicate 6 False,
      DUD_ENCODER_VALUES = [0], spline_t = 0\<rparr>"

fun to_string_nat :: "nat \<Rightarrow> string" where
  "to_string_nat n =
     (if n < 10 then [char_of (48 + n)]
      else to_string_nat (n div 10) @ [char_of (48 + n mod 10)])"

declare to_string_nat.simps [simp del]

text \<open>\<open>publish_transforms\<close>: the six joint transforms of the given arm state.\<close>

definition publish_transforms :: "ArmState \<Rightarrow> effect list" where
  "publish_transforms pub_state = [Fk_transform (map (\<lambda>i. joint_transform pub_state ! i) [0..<6])]"

definition publish_config :: "real list \<Rightarrow> string \<Rightarrow> effect list" where
  "publish_config config channel = [Config channel (map (\<lambda>i. config ! i) [0..<6])]"

subsection \<open>\<open>arm_position_callback\<close>\<close>

definition msg_angles :: "ArmPosition \<Rightarrow> real list" where
  "msg_angles msg = [joint_a msg, joint_b msg, joint_c msg, joint_d msg, joint_e msg, joint_f msg]"

text \<open>Lines 47-52: in hardware mode, subtract the offset, then multiply.\<close>

definition adjust_encoders :: "ArmState \<Rightarrow> real list \<Rightarrow> real list" where
  "adjust_encoders st angles =
     fold (\<lambda>i a. a[i := (a ! i - get_joint_encoder_offset st i) * get_joint_encoder_multiplier st i])
       [0..<6] angles"

text \<open>\<open>check_dud_encoder\<close>: an angle within epsilon of a dud value becomes the model's angle.\<close>

definition check_dud_encoder ::
  "constants \<Rightarrow> ('k, 'p) MRoverArm \<Rightarrow> real list \<Rightarrow> real list" where
  "check_dud_encoder c s angles =
     fold (\<lambda>i a.
         fold (\<lambda>d a. if \<bar>a ! i - d\<bar> < DUD_ENCODER_EPSILON c
                      then a[i := get_joint_angle (state s) i] else a)
           (DUD_ENCODER_VALUES s) a)
       [0..<length angles] angles"

text \<open>
  \<open>check_joint_limits\<close>: clamp a breach within the tolerance; flag a larger one. The triple
  is (\<open>angles\<close>, \<open>encoder_error\<close>, \<open>encoder_error_message\<close>).
\<close>

definition check_joint_limit ::
  "('k, 'p) collaborators \<Rightarrow> constants \<Rightarrow> ArmState \<Rightarrow> nat \<Rightarrow>
   real list \<times> bool \<times> string \<Rightarrow> real list \<times> bool \<times> string" where
  "check_joint_limit d c st i acc =
     (case acc of (angles, err, emsg) \<Rightarrow>
        let limits = get_joint_limits st i in
        if angles ! i < fst limits \<and> \<bar>angles ! i - fst limits\<bar> < ACCEPTABLE_BEYOND_LIMIT c
        then (angles[i := fst limits], err, emsg)
        else if angles ! i > snd limits \<and> \<bar>angles ! i - snd limits\<bar> < ACCEPTABLE_BEYOND_LIMIT c
        then (angles[i := snd limits], err, emsg)
        else if angles ! i < fst limits \<or> angles ! i > snd limits
        then (angles, True,
              ''Encoder Error: '' @ to_string_double d (angles ! i) @ '' beyond joint '' @
              to_string_nat i @ '' limits (joint A = 0, F = 5)'')
        else (angles, err, emsg))"

definition check_joint_limits ::
  "('k, 'p) collaborators \<Rightarrow> constants \<Rightarrow> ArmState \<Rightarrow>
   real list \<times> bool \<times> string \<Rightarrow> real list \<times> bool \<times> string" where
  "check_joint_limits d c st acc = fold (check_joint_limit d c st) [0..<length (fst acc)] acc"

text \<open>
  Lines 67-80, the inner loop while the window is not full: \<open>Some True\<close> when a comparison
  fails (the \<open>break\<close>), \<open>Some False\<close> when the last one passes, \<open>None\<close> when the window is
  empty and the loop body never runs. \<open>i\<close> is the index of the head of the remaining window.
\<close>

fun jump_scan :: "real \<Rightarrow> real \<Rightarrow> nat \<Rightarrow> real list \<Rightarrow> bool option" where
  "jump_scan thr a i [] = None"
| "jump_scan thr a i (w # ws) =
     (if \<bar>a - w\<bar> > thr * (real i + 1) then Some True
      else if ws = [] then Some False
      else jump_scan thr a (Suc i) ws)"

text \<open>Lines 87-96: the number of comparisons that exceed the staleness-scaled threshold.\<close>

definition num_fishy_vals :: "constants \<Rightarrow> real \<Rightarrow> real list \<Rightarrow> nat" where
  "num_fishy_vals c a w =
     length (filter (\<lambda>i. \<bar>a - w ! i\<bar> > ENCODER_ERROR_THRESHOLD c * (real i + 1))
               [0..<MAX_NUM_PREV_ANGLES c])"

text \<open>
  One joint of the temporal check. The triple is (\<open>faulty_encoders\<close>, \<open>encoder_error\<close>,
  \<open>encoder_error_message\<close>).
\<close>

definition jump_check_short ::
  "constants \<Rightarrow> real list \<Rightarrow> real list list \<Rightarrow> nat \<Rightarrow>
   bool list \<times> bool \<times> string \<Rightarrow> bool list \<times> bool \<times> string" where
  "jump_check_short c angles prev joint acc =
     (case acc of (faulty, err, emsg) \<Rightarrow>
        (case jump_scan (ENCODER_ERROR_THRESHOLD c) (angles ! joint) 0 (prev ! joint) of
           Some True \<Rightarrow> (faulty[joint := True], True, emsg @ '', '' @ to_string_nat joint)
         | Some False \<Rightarrow> (faulty[joint := False], err, emsg)
         | None \<Rightarrow> (faulty, err, emsg)))"

definition jump_check_full ::
  "constants \<Rightarrow> real list \<Rightarrow> real list list \<Rightarrow> nat \<Rightarrow>
   bool list \<times> bool \<times> string \<Rightarrow> bool list \<times> bool \<times> string" where
  "jump_check_full c angles prev joint acc =
     (case acc of (faulty, err, emsg) \<Rightarrow>
        if num_fishy_vals c (angles ! joint) (prev ! joint) > MAX_FISHY_VALS c
        then (faulty[joint := True], True, emsg @ '', '' @ to_string_nat joint)
        else (faulty[joint := False], err, emsg))"

definition jump_check ::
  "constants \<Rightarrow> real list \<Rightarrow> real list list \<Rightarrow>
   bool list \<times> bool \<times> string \<Rightarrow> bool list \<times> bool \<times> string" where
  "jump_check c angles prev acc =
     (if length (prev ! 0) < MAX_NUM_PREV_ANGLES c
      then fold (jump_check_short c angles prev) [0..<6] acc
      else fold (jump_check_full c angles prev) [0..<6] acc)"

text \<open>
  Lines 111-120: per joint, drop the oldest entry of a full window, push the reading, and
  only then replace the reading of a faulty joint by the model's angle. The pair is
  (\<open>prev_angles\<close>, \<open>angles\<close>). (\<open>pop_back\<close> on an empty deque, which the source reaches only
  for \<open>MAX_NUM_PREV_ANGLES = 0\<close>, is undefined in C++; here it leaves the window empty.)
\<close>

definition push_reading ::
  "constants \<Rightarrow> ArmState \<Rightarrow> bool list \<Rightarrow> nat \<Rightarrow>
   real list list \<times> real list \<Rightarrow> real list list \<times> real list" where
  "push_reading c st faulty joint acc =
     (case acc of (prev, angles) \<Rightarrow>
        let w = prev ! joint;
            w1 = (if length w \<ge> MAX_NUM_PREV_ANGLES c then butlast w else w);
            prev' = prev[joint := angles ! joint # w1]
        in (prev', if faulty ! joint then angles[joint := get_joint_angle st joint] else angles))"

definition push_readings ::
  "constants \<Rightarrow> ArmState \<Rightarrow> bool list \<Rightarrow>
   real list list \<times> real list \<Rightarrow> real list list \<times> real list" where
  "push_readings c st faulty acc = fold (push_reading c st faulty) [0..<6] acc"

text \<open>
  Lines 38-58: the reading after the encoder adjustment, the dud check and the limit check,
  with \<open>encoder_error\<close> and its message, both reset before the two checks.
\<close>

definition checked_reading ::
  "('k, 'p) collaborators \<Rightarrow> constants \<Rightarrow> ('k, 'p) MRoverArm \<Rightarrow> ArmPosition \<Rightarrow>
   real list \<times> bool \<times> string" where
  "checked_reading d c s msg =
     (let angles0 = msg_angles msg;
          angles1 = (if \<not> sim_mode s then adjust_encoders (state s) angles0 else angles0);
          angles2 = check_dud_encoder c s angles1
      in check_joint_limits d c (state s)
           (angles2, False, ''Encoder Error in encoder(s) (joint A = 0, F = 5): ''))"

definition arm_position_callback ::
  "('k, 'p) collaborators \<Rightarrow> constants \<Rightarrow> ('k, 'p) MRoverArm \<Rightarrow> ArmPosition \<Rightarrow>
   ('k, 'p) MRoverArm \<times> effect list" where
  "arm_position_callback d c s msg =
     (let (angles3, err3, emsg3) = checked_reading d c s msg;
          (faulty, err4, emsg4) =
             jump_check c angles3 (prev_angles s) (faulty_encoders s, err3, emsg3);
          (prev, angles5) = push_readings c (state s) faulty (prev_angles s, angles3);
          s1 = s\<lparr>encoder_error := err4, encoder_error_message := emsg4,
                 faulty_encoders := faulty, prev_angles := prev\<rparr>
      in if \<not> previewing s
         then (let st = FK d (set_joint_angles d (state s) angles5)
               in (s1\<lparr>state := st\<rparr>, publish_transforms st))
         else (s1, []))"

subsection \<open>Targets, planning and preview\<close>

text \<open>
  The loop of \<open>preview\<close> (lines 368-382), on the hypothetical state it was handed: query the
  spline, set the angles, run FK, publish the transforms, advance \<open>t\<close> by \<open>1 / 50\<close>.
\<close>

function preview_loop ::
  "('k, 'p) collaborators \<Rightarrow> 'p \<Rightarrow> real \<Rightarrow> ArmState \<Rightarrow> ArmState \<times> effect list" where
  "preview_loop d p t hypo_state =
     (if t \<le> 1
      then (let target = get_spline_pos d p t;
                h1 = FK d (set_joint_angles d hypo_state target);
                (h2, es) = preview_loop d p (t + 1 / 50) h1
            in (h2, Call_get_spline_pos t # publish_transforms h1 @ es))
      else (hypo_state, []))"
  by pat_completeness auto
termination
  by (relation "measure (\<lambda>(d, p, t, h). nat \<lfloor>(1 - t) * 50 + 1\<rfloor>)") (auto, linarith)

declare preview_loop.simps [simp del]

text \<open>
  \<open>preview\<close> returns the controller and the hypothetical state, which the caller passed by
  reference and drops when it returns. Both callers hand it a local \<open>ArmState hypo_state = state\<close>,
  taken to be a copy by value, so it is a value of its own here and never the controller's
  \<open>state\<close>.
\<close>

definition preview ::
  "('k, 'p) collaborators \<Rightarrow> ('k, 'p) MRoverArm \<Rightarrow> ArmState \<Rightarrow>
   ('k, 'p) MRoverArm \<times> ArmState \<times> effect list" where
  "preview d s hypo_state =
     (let s1 = s\<lparr>ik_enabled := True, previewing := True\<rparr>;
          (h, es) = preview_loop d (motion_planner s1) 0 hypo_state
      in (s1\<lparr>previewing := False\<rparr>, h, es @ [Debug_message False ''Preview Done'']))"

definition plan_path ::
  "('k, 'p) collaborators \<Rightarrow> ('k, 'p) MRoverArm \<Rightarrow> ArmState \<Rightarrow> real list \<Rightarrow>
   ('k, 'p) MRoverArm \<times> ArmState \<times> effect list" where
  "plan_path d s hypo_state goal =
     (case rrt_connect d (motion_planner s) hypo_state goal of
        (p, h, path_found) \<Rightarrow>
          if path_found
          then (case preview d (s\<lparr>motion_planner := p\<rparr>) h of
                  (s', h', es) \<Rightarrow> (s', h', Call_rrt_connect # es))
          else (s\<lparr>motion_planner := p\<rparr>, h,
                [Call_rrt_connect, Debug_message False ''Unable to plan path!'']))"

text \<open>
  Lines 186-193: up to 25 further calls of \<open>IK\<close> from random starting positions, stopping at
  the first solution. The tuple is the solver, the hypothetical state and the last result.
\<close>

fun IK_restarts ::
  "('k, 'p) collaborators \<Rightarrow> nat \<Rightarrow> real list \<Rightarrow> bool \<Rightarrow>
   'k \<times> ArmState \<times> real list \<times> bool \<Rightarrow> ('k \<times> ArmState \<times> real list \<times> bool) \<times> effect list" where
  "IK_restarts d 0 point uo r = (r, [])"
| "IK_restarts d (Suc n) point uo (k, h, sol, ok) =
     (if ok then ((k, h, sol, ok), [])
      else (case IK_restarts d n point uo (IK d k h point True uo) of
              (r, es) \<Rightarrow> (r, Call_IK True # es)))"

definition target_orientation_callback ::
  "('k, 'p) collaborators \<Rightarrow> ('k, 'p) MRoverArm \<Rightarrow> TargetOrientation \<Rightarrow>
   ('k, 'p) MRoverArm \<times> effect list" where
  "target_orientation_callback d s msg =
     (if \<not> is_safe d (state s)
      then (s, [Debug_message False ''Unsafe Starting Position''])
      else
        (let s1 = s\<lparr>enable_execute := False\<rparr>;
             point = [pos_x msg, pos_y msg, pos_z msg, rot_alpha msg, rot_beta msg, rot_gamma msg];
             hypo_state = state s1;
             first = IK d (solver s1) hypo_state point False (use_orientation msg)
         in (case IK_restarts d 25 point (use_orientation msg) first of
               ((k, h, sol, ok), es) \<Rightarrow>
                 if \<not> ok
                 then (s1\<lparr>solver := k\<rparr>,
                       Call_IK False # es @ [Debug_message False ''No IK solution''])
                 else (case plan_path d (s1\<lparr>solver := k\<rparr>) h sol of
                         (s2, h2, es2) \<Rightarrow> (s2, Call_IK False # es @ es2)))))"

definition target_angles_callback ::
  "('k, 'p) collaborators \<Rightarrow> ('k, 'p) MRoverArm \<Rightarrow> ArmPosition \<Rightarrow>
   ('k, 'p) MRoverArm \<times> effect list" where
  "target_angles_callback d s msg =
     (let s1 = s\<lparr>enable_execute := False\<rparr>;
          hypo_state = state s1
      in (case plan_path d s1 hypo_state (msg_angles msg) of (s2, h2, es) \<Rightarrow> (s2, es)))"

subsection \<open>The other handlers\<close>

text \<open>
  \<open>motion_execute_callback\<close>: with \<open>preview\<close> set, both statements of the branch are
  commented out in the source and nothing happens; otherwise execution is enabled.
\<close>

definition motion_execute_callback :: "('k, 'p) MRoverArm \<Rightarrow> bool \<Rightarrow> ('k, 'p) MRoverArm" where
  "motion_execute_callback s msg_preview =
     (if msg_preview then s else s\<lparr>enable_execute := True\<rparr>)"

definition ik_enabled_callback ::
  "('k, 'p) MRoverArm \<Rightarrow> bool \<Rightarrow> ('k, 'p) MRoverArm \<times> effect list" where
  "ik_enabled_callback s msg_enabled =
     (let s1 = s\<lparr>ik_enabled := msg_enabled\<rparr>
      in if \<not> ik_enabled s1
         then (s1\<lparr>enable_execute := False\<rparr>, publish_transforms (state s1))
         else (s1, []))"

definition simulation_mode_callback :: "('k, 'p) MRoverArm \<Rightarrow> bool \<Rightarrow> ('k, 'p) MRoverArm" where
  "simulation_mode_callback s msg_sim_mode = s\<lparr>sim_mode := msg_sim_mode\<rparr>"

definition ra_control_callback :: "('k, 'p) MRoverArm \<Rightarrow> string \<Rightarrow> ('k, 'p) MRoverArm" where
  "ra_control_callback s msg_state = s\<lparr>arm_control_state := msg_state\<rparr>"

definition lock_joints_callback :: "('k, 'p) MRoverArm \<Rightarrow> LockJoints \<Rightarrow> ('k, 'p) MRoverArm" where
  "lock_joints_callback s msg =
     s\<lparr>state :=
        set_joint_locked (set_joint_locked (set_joint_locked (set_joint_locked
          (set_joint_locked (set_joint_locked (state s) 0 (jointa msg)) 1 (jointb msg))
            2 (jointc msg)) 3 (jointd msg)) 4 (jointe msg)) 5 (jointf msg)\<rparr>"

text \<open>One iteration of the loop of \<open>encoder_angles_sender\<close>.\<close>

definition encoder_angles_sender :: "('k, 'p) MRoverArm \<Rightarrow> effect list" where
  "encoder_angles_sender s =
     (if sim_mode s
      then [Config ''/arm_position'' (map (\<lambda>i. get_joint_angle (state s) i) [0..<6])]
      else [])"

subsection \<open>\<open>execute_spline\<close>\<close>

text \<open>
  Lines 269-279: the longest time, in milliseconds, that a joint A to E needs to reach the
  lookahead point at three quarters of its maximum speed.
\<close>

definition max_time :: "ArmState \<Rightarrow> real list \<Rightarrow> real list \<Rightarrow> real" where
  "max_time st init_angles final_angles =
     fold (\<lambda>i m.
         let max_speed = get_joint_max_speed st i * 3 / 4;
             joint_time = \<bar>final_angles ! i - init_angles ! i\<bar> / (max_speed / 1000)
         in if m < joint_time then joint_time else m)
       [0..<5] (- 1)"

text \<open>Line 282: the increment of the spline parameter.\<close>

definition spline_t_iterator :: "('k, 'p) collaborators \<Rightarrow> constants \<Rightarrow> ('k, 'p) MRoverArm \<Rightarrow> real" where
  "spline_t_iterator d c s =
     D_SPLINE_T c /
       (max_time (state s) (get_joint_angles (state s))
          (get_spline_pos d (motion_planner s) (spline_t s + D_SPLINE_T c)) / SPLINE_WAIT_TIME c)"

text \<open>Lines 298-305: clamp each joint of the setpoint to its limits.\<close>

definition clamp_to_limits :: "ArmState \<Rightarrow> real list \<Rightarrow> real list" where
  "clamp_to_limits st target_angles =
     fold (\<lambda>i t.
         if t ! i < fst (get_joint_limits st i) then t[i := fst (get_joint_limits st i)]
         else if t ! i > snd (get_joint_limits st i) then t[i := snd (get_joint_limits st i)]
         else t)
       [0..<6] target_angles"

text \<open>Lines 312-315: in hardware mode, multiply by the multiplier, then add the offset.\<close>

definition to_encoder_units :: "ArmState \<Rightarrow> real list \<Rightarrow> real list" where
  "to_encoder_units st target_angles =
     fold (\<lambda>i t. t[i := t ! i * get_joint_encoder_multiplier st i + get_joint_encoder_offset st i])
       [0..<6] target_angles"

text \<open>Line 296 and the clamp: the setpoint of a tick that does not end the run.\<close>

definition target_angles :: "('k, 'p) collaborators \<Rightarrow> constants \<Rightarrow> ('k, 'p) MRoverArm \<Rightarrow> real list" where
  "target_angles d c s =
     clamp_to_limits (state s)
       (get_spline_pos d (motion_planner s) (spline_t s + spline_t_iterator d c s))"

text \<open>Lines 286-293: the end of a run.\<close>

definition finish_executing :: "('k, 'p) MRoverArm \<Rightarrow> ('k, 'p) MRoverArm" where
  "finish_executing s = s\<lparr>enable_execute := False, spline_t := 0, ik_enabled := False\<rparr>"

text \<open>
  One iteration of the \<open>while (true)\<close> of \<open>execute_spline\<close>. The local \<open>spline_t_iterator\<close> is
  written and read within one iteration only and is not part of the state. When no joint
  A to E has to move, \<open>max_time\<close> is \<open>0.0\<close> and the code divides the positive \<open>D_SPLINE_T\<close>
  by \<open>0.0\<close>: the increment is the IEEE \<open>+infinity\<close>, \<open>spline_t > 1\<close> holds and the run ends;
  that is the branch \<open>max_time = 0\<close> here. Elsewhere the model is the code's for positive
  maximum speeds and a positive \<open>SPLINE_WAIT_TIME\<close>.
\<close>

definition execute_spline_step ::
  "('k, 'p) collaborators \<Rightarrow> constants \<Rightarrow> ('k, 'p) MRoverArm \<Rightarrow> ('k, 'p) MRoverArm \<times> effect list" where
  "execute_spline_step d c s =
     (if enable_execute s then
        if encoder_error s then
          (s\<lparr>enable_execute := False, spline_t := 0, ik_enabled := False\<rparr>,
           Debug_message True (encoder_error_message s) #
           (if sim_mode s
            then concat (replicate (MAX_NUM_PREV_ANGLES c)
                           (publish_config (get_joint_angles (state s)) ''/arm_position''))
            else []))
        else
          (let init_angles = get_joint_angles (state s);
               final_angles = get_spline_pos d (motion_planner s) (spline_t s + D_SPLINE_T c);
               lookahead = Call_get_spline_pos (spline_t s + D_SPLINE_T c)
           in if max_time (state s) init_angles final_angles = 0
              then (finish_executing s, [lookahead])
              else
                (let t = spline_t s + spline_t_iterator d c s
                 in if t > 1
                    then (finish_executing s, [lookahead])
                    else if \<not> sim_mode s
                    then (s\<lparr>spline_t := t\<rparr>,
                          lookahead # Call_get_spline_pos t #
                          publish_config (to_encoder_units (state s) (target_angles d c s))
                            ''/ik_ra_control'')
                    else (s\<lparr>spline_t := t,
                            state := set_joint_angles d (state s) (target_angles d c s)\<rparr>,
                          [lookahead, Call_get_spline_pos t])))
      else (s\<lparr>spline_t := 0\<rparr>, []))"

subsection \<open>Concrete configurations\<close>

text \<open>
  A configuration on which the handlers are evaluated: six joints with limits \<open>(-3, 3)\<close>,
  maximum speed 1, no encoder offset, multiplier 1; collaborators that store the angles they
  are given; a planner whose state is the spline itself.
\<close>

definition example_constants :: constants where
  "example_constants =
     \<lparr>MAX_NUM_PREV_ANGLES = 5, MAX_FISHY_VALS = 1, ENCODER_ERROR_THRESHOLD = 8 / 100,
      DUD_ENCODER_EPSILON = 1 / 100000000, ACCEPTABLE_BEYOND_LIMIT = 5 / 100,
      D_SPLINE_T = 5 / 100, SPLINE_WAIT_TIME = 20\<rparr>"

definition example_arm :: "real \<Rightarrow> ArmState" where
  "example_arm a =
     \<lparr>joint_angles = replicate 6 a, joint_limits = replicate 6 (- 3, 3),
      joint_max_speed = replicate 6 1, joint_encoder_offset = replicate 6 0,
      joint_encoder_multiplier = replicate 6 1, joint_locked = replicate 6 False,
      joint_transform = replicate 6 []\<rparr>"

definition example_collaborators :: "(unit, real \<Rightarrow> real list) collaborators" where
  "example_collaborators =
     \<lparr>FK = (\<lambda>st. st),
      is_safe = (\<lambda>st. list_all2 (\<lambda>a l. fst l \<le> a \<and> a \<le> snd l) (joint_angles st) (joint_limits st)),
      IK = (\<lambda>k st point rnd uo. (k, st, joint_angles st, True)),
      rrt_connect = (\<lambda>p st goal. (\<lambda>t. map2 (\<lambda>a g. a + t * (g - a)) (joint_angles st) goal, st, True)),
      get_spline_pos = (\<lambda>p t. p t),
      set_joint_angles = (\<lambda>st a. st\<lparr>joint_angles := a\<rparr>),
      to_string_double = (\<lambda>r. ''?'')\<rparr>"

definition example_healthy :: "(unit, real \<Rightarrow> real list) MRoverArm" where
  "example_healthy =
     (MRoverArm_init (example_arm (2 / 10)) () (\<lambda>t. replicate 6 (2 / 10)) False)
       \<lparr>prev_angles := replicate 6 (replicate 5 (2 / 10))\<rparr>"

definition example_jump :: ArmPosition where
  "example_jump = \<lparr>joint_a = 2 / 10, joint_b = 2 / 10, joint_c = 3, joint_d = 2 / 10,
     joint_e = 2 / 10, joint_f = 2 / 10\<rparr>"

definition example_steady :: ArmPosition where
  "example_steady = \<lparr>joint_a = 2 / 10, joint_b = 2 / 10, joint_c = 2 / 10, joint_d = 2 / 10,
     joint_e = 2 / 10, joint_f = 2 / 10\<rparr>"

text \<open>
  A controller about to execute, in simulation mode, from the angles \<open>0\<close> at \<open>t = 0\<close>, along
  a spline that moves joint A only: \<open>example_straight\<close> along the line \<open>0.06 t\<close>,
  \<open>example_curved\<close> along the parabola \<open>t\<^sup>2\<close>.
\<close>

definition example_executing ::
  "(real \<Rightarrow> real) \<Rightarrow> (unit, real \<Rightarrow> real list) MRoverArm" where
  "example_executing f =
     (MRoverArm_init (example_arm 0) () (\<lambda>t. [f t, 0, 0, 0, 0, 0]) False)
       \<lparr>enable_execute := True, ik_enabled := True\<rparr>"

definition example_straight :: "(unit, real \<Rightarrow> real list) MRoverArm" where
  "example_straight = example_executing (\<lambda>t. 6 / 100 * t)"

definition example_curved :: "(unit, real \<Rightarrow> real list) MRoverArm" where
  "example_curved = example_executing (\<lambda>t. t * t)"

text \<open>An arm whose encoders scale by 2, with offset \<open>0.5\<close>.\<close>

definition example_scaled_arm :: ArmState where
  "example_scaled_arm =
     (example_arm 0)\<lparr>joint_encoder_offset := replicate 6 (1 / 2),
                     joint_encoder_multiplier := replicate 6 2\<rparr>"

text \<open>A target pose.\<close>

definition example_target :: TargetOrientation where
  "example_target = \<lparr>pos_x = 6 / 10, pos_y = 0, pos_z = 5 / 10, rot_alpha = 0, rot_beta = 0,
     rot_gamma = 0, use_orientation = False\<rparr>"

text \<open>The controller after \<open>n\<close> iterations of the executor along the straight spline.\<close>

definition example_run :: "nat \<Rightarrow> (unit, real \<Rightarrow> real list) MRoverArm" where
  "example_run n =
     ((\<lambda>s. fst (execute_spline_step example_collaborators example_constants s)) ^^ n)
       example_straight"

text \<open>The same controller at spline parameter \<open>t\<close>, joint A at the angle \<open>a\<close>.\<close>

definition example_at :: "real \<Rightarrow> real \<Rightarrow> (unit, real \<Rightarrow> real list) MRoverArm" where
  "example_at t a =
     example_straight\<lparr>state := (example_arm 0)\<lparr>joint_angles := [a, 0, 0, 0, 0, 0]\<rparr>,
                      spline_t := t\<rparr>"

text \<open>
  The straight run in hardware mode, on the arm whose encoders scale by 2, and the message
  that carries the raw setpoint of its first tick back as an encoder reading.
\<close>

definition example_hardware :: "(unit, real \<Rightarrow> real list) MRoverArm" where
  "example_hardware = example_straight\<lparr>state := example_scaled_arm, sim_mode := False\<rparr>"

definition example_raw_setpoint :: ArmPosition where
  "example_raw_setpoint = \<lparr>joint_a = 53 / 100, joint_b = 1 / 2, joint_c = 1 / 2, joint_d = 1 / 2,
     joint_e = 1 / 2, joint_f = 1 / 2\<rparr>"

text \<open>A run along a spline so flat that the first increment overshoots the end.\<close>

definition example_slow :: "(unit, real \<Rightarrow> real list) MRoverArm" where
  "example_slow = example_executing (\<lambda>t. t / 1024)"


section \<open>Properties\<close>

subsection \<open>The loops of the encoder handler\<close>

lemma length_adjust_encoders_aux:
  "length (fold (\<lambda>i a. a[i := g i a]) is xs) = length xs"
  by (induction "is" arbitrary: xs) auto

lemma length_adjust_encoders: "length (adjust_encoders st angles) = length angles"
  unfolding adjust_encoders_def by (rule length_adjust_encoders_aux)

lemma length_dud_inner:
  "length (fold (\<lambda>dv a. if P dv a then a[i := v] else a) ds xs) = length xs"
  by (induction ds arbitrary: xs) auto

lemma length_dud_outer:
  "length (fold (\<lambda>i a. fold (\<lambda>dv a. if P i dv a then a[i := v i] else a) ds a) is xs) = length xs"
  by (induction "is" arbitrary: xs) (auto simp: length_dud_inner)

lemma length_check_dud_encoder: "length (check_dud_encoder c s angles) = length angles"
  unfolding check_dud_encoder_def by (rule length_dud_outer)

lemma length_check_joint_limit: "length (fst (check_joint_limit d c st i acc)) = length (fst acc)"
  by (cases acc) (simp add: check_joint_limit_def Let_def)

lemma length_fold_check_joint_limit:
  "length (fst (fold (check_joint_limit d c st) is acc)) = length (fst acc)"
  by (induction "is" arbitrary: acc) (auto simp: length_check_joint_limit)

lemma length_check_joint_limits: "length (fst (check_joint_limits d c st acc)) = length (fst acc)"
  unfolding check_joint_limits_def by (rule length_fold_check_joint_limit)

lemma length_checked_reading: "length (fst (checked_reading d c s msg)) = 6"
  by (simp add: checked_reading_def Let_def length_check_joint_limits length_check_dud_encoder
      length_adjust_encoders msg_angles_def)

lemma jump_check_full_fold:
  assumes "fold (jump_check_full c a prev) [0..<n] (f, e, m) = (f', e', m')"
  shows "length f' = length f \<and>
         (\<forall>j<length f. f' ! j = (if j < n then MAX_FISHY_VALS c < num_fishy_vals c (a ! j) (prev ! j) else f ! j)) \<and>
         (e' = (e \<or> (\<exists>j<n. MAX_FISHY_VALS c < num_fishy_vals c (a ! j) (prev ! j))))"
  using assms
proof (induction n arbitrary: f' e' m')
  case 0
  then show ?case by simp
next
  case (Suc n)
  obtain f1 e1 m1 where r: "fold (jump_check_full c a prev) [0..<n] (f, e, m) = (f1, e1, m1)"
    by (metis prod_cases3)
  note ih = Suc.IH [OF r]
  from Suc.prems r have step: "jump_check_full c a prev n (f1, e1, m1) = (f', e', m')"
    by simp
  show ?case
  proof (cases "MAX_FISHY_VALS c < num_fishy_vals c (a ! n) (prev ! n)")
    case True
    with step have "f' = f1[n := True]" "e' = True" by (auto simp: jump_check_full_def)
    with ih True show ?thesis by (auto simp: nth_list_update less_Suc_eq)
  next
    case False
    with step have "f' = f1[n := False]" "e' = e1" by (auto simp: jump_check_full_def)
    with ih False show ?thesis by (auto simp: nth_list_update less_Suc_eq)
  qed
qed

lemma jump_check_short_fold:
  assumes "fold (jump_check_short c a prev) [0..<n] (f, e, m) = (f', e', m')"
  shows "length f' = length f \<and>
         (\<forall>j<length f. f' ! j =
            (if j < n then (case jump_scan (ENCODER_ERROR_THRESHOLD c) (a ! j) 0 (prev ! j) of
                              None \<Rightarrow> f ! j | Some b \<Rightarrow> b) else f ! j)) \<and>
         (e' = (e \<or> (\<exists>j<n. jump_scan (ENCODER_ERROR_THRESHOLD c) (a ! j) 0 (prev ! j) = Some True)))"
  using assms
proof (induction n arbitrary: f' e' m')
  case 0
  then show ?case by simp
next
  case (Suc n)
  obtain f1 e1 m1 where r: "fold (jump_check_short c a prev) [0..<n] (f, e, m) = (f1, e1, m1)"
    by (metis prod_cases3)
  note ih = Suc.IH [OF r]
  from Suc.prems r have step: "jump_check_short c a prev n (f1, e1, m1) = (f', e', m')"
    by simp
  show ?case
  proof (cases "jump_scan (ENCODER_ERROR_THRESHOLD c) (a ! n) 0 (prev ! n)")
    case None
    with step have "f' = f1" "e' = e1" by (auto simp: jump_check_short_def)
    with ih None show ?thesis by (auto simp: less_Suc_eq)
  next
    case (Some b)
    show ?thesis
    proof (cases b)
      case True
      with Some step have "f' = f1[n := True]" "e' = True" by (auto simp: jump_check_short_def)
      with ih Some True show ?thesis by (auto simp: nth_list_update less_Suc_eq)
    next
      case False
      with Some step have "f' = f1[n := False]" "e' = e1" by (auto simp: jump_check_short_def)
      with ih Some False show ?thesis by (auto simp: nth_list_update less_Suc_eq)
    qed
  qed
qed

lemma push_readings_fold:
  assumes "fold (push_reading c st faulty) [0..<n] (prev, angles) = (prev', angles')"
  shows "length prev' = length prev \<and> length angles' = length angles \<and>
         (\<forall>j<length prev. prev' ! j =
            (if j < n
             then angles ! j #
                  (if MAX_NUM_PREV_ANGLES c \<le> length (prev ! j) then butlast (prev ! j) else prev ! j)
             else prev ! j)) \<and>
         (\<forall>j<length angles. angles' ! j =
            (if j < n \<and> faulty ! j then get_joint_angle st j else angles ! j)) \<and>
         (\<forall>j\<ge>n. angles' ! j = angles ! j)"
  using assms
proof (induction n arbitrary: prev' angles')
  case 0
  then show ?case by simp
next
  case (Suc n)
  obtain p1 a1 where r: "fold (push_reading c st faulty) [0..<n] (prev, angles) = (p1, a1)"
    by (metis surj_pair)
  note ih = Suc.IH [OF r]
  from Suc.prems r have step: "push_reading c st faulty n (p1, a1) = (prev', angles')"
    by simp
  from ih have an: "a1 ! n = angles ! n" by simp
  from step have p': "prev' = p1[n := a1 ! n #
      (if MAX_NUM_PREV_ANGLES c \<le> length (p1 ! n) then butlast (p1 ! n) else p1 ! n)]"
    and a': "angles' = (if faulty ! n then a1[n := get_joint_angle st n] else a1)"
    by (auto simp: push_reading_def Let_def)
  have l1: "length prev' = length prev" and l2: "length angles' = length angles"
    using ih unfolding p' a' by auto
  have w: "prev' ! j =
            (if j < Suc n
             then angles ! j #
                  (if MAX_NUM_PREV_ANGLES c \<le> length (prev ! j) then butlast (prev ! j) else prev ! j)
             else prev ! j)" if "j < length prev" for j
  proof (cases "j = n")
    case True
    with that ih an show ?thesis unfolding p' by simp
  next
    case False
    with that ih show ?thesis unfolding p' by (simp add: less_Suc_eq)
  qed
  have v: "angles' ! j = (if j < Suc n \<and> faulty ! j then get_joint_angle st j else angles ! j)"
    if "j < length angles" for j
  proof (cases "j = n")
    case True
    with that ih an show ?thesis unfolding a' by simp
  next
    case False
    with that ih show ?thesis unfolding a' by (simp add: less_Suc_eq)
  qed
  have u: "angles' ! j = angles ! j" if "Suc n \<le> j" for j
    using that ih unfolding a' by simp
  show ?case using l1 l2 w v u by blast
qed


lemma arm_position_callback_parts:
  obtains f' e' m' p' a5 where
    "jump_check c (fst (checked_reading d c s msg)) (prev_angles s)
       (faulty_encoders s, snd (checked_reading d c s msg)) = (f', e', m')"
    "push_readings c (state s) f' (prev_angles s, fst (checked_reading d c s msg)) = (p', a5)"
    "arm_position_callback d c s msg =
       (if \<not> previewing s
        then (s\<lparr>encoder_error := e', encoder_error_message := m', faulty_encoders := f',
                prev_angles := p', state := FK d (set_joint_angles d (state s) a5)\<rparr>,
              publish_transforms (FK d (set_joint_angles d (state s) a5)))
        else (s\<lparr>encoder_error := e', encoder_error_message := m', faulty_encoders := f',
                prev_angles := p'\<rparr>, []))"
proof -
  obtain a3 e3 m3 where R: "checked_reading d c s msg = (a3, e3, m3)"
    by (metis prod_cases3)
  obtain f' e' m' where J: "jump_check c a3 (prev_angles s) (faulty_encoders s, e3, m3) = (f', e', m')"
    by (metis prod_cases3)
  obtain p' a5 where P: "push_readings c (state s) f' (prev_angles s, a3) = (p', a5)"
    by (metis surj_pair)
  show thesis
    by (rule that [of f' e' m' p' a5]) (simp_all add: R J P arm_position_callback_def Let_def)
qed

text \<open>
  The windows grow in step: from the constructor on, all six have the same length, at most
  \<open>MAX_NUM_PREV_ANGLES\<close>, so every index read by the temporal check is in range.
\<close>

lemma num_fishy_vals_all:
  assumes "\<forall>k<MAX_NUM_PREV_ANGLES c. \<bar>a - w ! k\<bar> > ENCODER_ERROR_THRESHOLD c * (real k + 1)"
  shows "num_fishy_vals c a w = MAX_NUM_PREV_ANGLES c"
proof -
  have "filter (\<lambda>i. \<bar>a - w ! i\<bar> > ENCODER_ERROR_THRESHOLD c * (real i + 1)) [0..<MAX_NUM_PREV_ANGLES c]
        = [0..<MAX_NUM_PREV_ANGLES c]"
    using assms by (intro filter_True) simp
  then show ?thesis by (simp add: num_fishy_vals_def)
qed

lemma windows_in_step:
  assumes "length (prev_angles s) = 6"
    and "\<forall>j<6. length (prev_angles s ! j) = n"
    and "n \<le> MAX_NUM_PREV_ANGLES c" and "0 < MAX_NUM_PREV_ANGLES c"
  shows "length (prev_angles (fst (arm_position_callback d c s msg))) = 6 \<and>
         (\<forall>j<6. length (prev_angles (fst (arm_position_callback d c s msg)) ! j) =
                 min (Suc n) (MAX_NUM_PREV_ANGLES c))"
proof -
  obtain f' e' m' p' a5 where
    P: "push_readings c (state s) f' (prev_angles s, fst (checked_reading d c s msg)) = (p', a5)"
    and C: "prev_angles (fst (arm_position_callback d c s msg)) = p'"
    by (rule arm_position_callback_parts [of c d s msg]) auto
  from P have "fold (push_reading c (state s) f') [0..<6]
      (prev_angles s, fst (checked_reading d c s msg)) = (p', a5)"
    by (simp add: push_readings_def)
  note F = push_readings_fold [OF this]
  have "length (p' ! j) = min (Suc n) (MAX_NUM_PREV_ANGLES c)" if "j < 6" for j
    using F that assms by auto
  with F assms(1) show ?thesis unfolding C by simp
qed
subsection \<open>The temporal check on a full window\<close>

text \<open>
  Claim C4, as amended. When every window holds \<open>MAX_NUM_PREV_ANGLES\<close> entries, a joint is
  marked faulty by a message exactly when strictly more than \<open>MAX_FISHY_VALS\<close> of the
  comparisons \<open>\<bar>\<alpha> - w[k]\<bar> > ENCODER_ERROR_THRESHOLD * (k + 1)\<close> fail, the reading \<open>\<alpha>\<close> being
  the one that left the dud and limit checks; and a joint marked faulty raises
  \<open>encoder_error\<close>. So one anomalous entry in the window is tolerated when
  \<open>MAX_FISHY_VALS \<ge> 1\<close>, whereas one incoming reading that fails every comparison raises
  \<open>encoder_error\<close> by itself whenever \<open>MAX_FISHY_VALS < MAX_NUM_PREV_ANGLES\<close>.
\<close>

theorem full_window_faulty_iff:
  assumes "length (faulty_encoders s) = 6"
    and "\<forall>j<6. length (prev_angles s ! j) = MAX_NUM_PREV_ANGLES c"
    and "joint < 6"
  shows "(faulty_encoders (fst (arm_position_callback d c s msg)) ! joint =
            (MAX_FISHY_VALS c <
               num_fishy_vals c (fst (checked_reading d c s msg) ! joint) (prev_angles s ! joint))) \<and>
         (faulty_encoders (fst (arm_position_callback d c s msg)) ! joint \<longrightarrow>
            encoder_error (fst (arm_position_callback d c s msg))) \<and>
         (MAX_FISHY_VALS c < MAX_NUM_PREV_ANGLES c \<and>
          (\<forall>k<MAX_NUM_PREV_ANGLES c.
             \<bar>fst (checked_reading d c s msg) ! joint - prev_angles s ! joint ! k\<bar>
               > ENCODER_ERROR_THRESHOLD c * (real k + 1)) \<longrightarrow>
            encoder_error (fst (arm_position_callback d c s msg)))"
proof -
  obtain f' e' m' p' a5 where
    J: "jump_check c (fst (checked_reading d c s msg)) (prev_angles s)
          (faulty_encoders s, snd (checked_reading d c s msg)) = (f', e', m')"
    and C: "faulty_encoders (fst (arm_position_callback d c s msg)) = f'"
           "encoder_error (fst (arm_position_callback d c s msg)) = e'"
    by (rule arm_position_callback_parts [of c d s msg]) auto
  from assms(2) have "\<not> length (prev_angles s ! 0) < MAX_NUM_PREV_ANGLES c" by simp
  with J have "fold (jump_check_full c (fst (checked_reading d c s msg)) (prev_angles s)) [0..<6]
      (faulty_encoders s, fst (snd (checked_reading d c s msg)), snd (snd (checked_reading d c s msg)))
      = (f', e', m')"
    by (simp add: jump_check_def)
  note F = jump_check_full_fold [OF this]
  from F assms(1,3) have 1: "f' ! joint =
      (MAX_FISHY_VALS c <
         num_fishy_vals c (fst (checked_reading d c s msg) ! joint) (prev_angles s ! joint))"
    by simp
  from F assms(3) have 2: "e'"
    if "MAX_FISHY_VALS c <
          num_fishy_vals c (fst (checked_reading d c s msg) ! joint) (prev_angles s ! joint)"
    using that by auto
  have 3: "e'"
    if "MAX_FISHY_VALS c < MAX_NUM_PREV_ANGLES c"
      and "\<forall>k<MAX_NUM_PREV_ANGLES c.
             \<bar>fst (checked_reading d c s msg) ! joint - prev_angles s ! joint ! k\<bar>
               > ENCODER_ERROR_THRESHOLD c * (real k + 1)"
    using 2 that num_fishy_vals_all [OF that(2)] by simp
  from 1 2 3 show ?thesis unfolding C by blast
qed

text \<open>The theorem at the jump of joint C: all five comparisons fail and the joint is faulty.\<close>

theorem full_window_faulty_iff_witness:
  "faulty_encoders (fst (arm_position_callback example_collaborators example_constants
      example_healthy example_jump)) ! 2 \<and>
   num_fishy_vals example_constants
     (fst (checked_reading example_collaborators example_constants example_healthy example_jump) ! 2)
     (prev_angles example_healthy ! 2) = 5 \<and>
   encoder_error (fst (arm_position_callback example_collaborators example_constants
      example_healthy example_jump)) \<and>
   \<not> faulty_encoders (fst (arm_position_callback example_collaborators example_constants
      example_healthy example_jump)) ! 0"
proof -
  have a: "length (faulty_encoders example_healthy) = 6" by code_simp
  have b: "\<forall>j<6. length (prev_angles example_healthy ! j) = MAX_NUM_PREV_ANGLES example_constants"
    by code_simp
  have n: "num_fishy_vals example_constants
     (fst (checked_reading example_collaborators example_constants example_healthy example_jump) ! 2)
     (prev_angles example_healthy ! 2) = 5" by code_simp
  have n0: "num_fishy_vals example_constants
     (fst (checked_reading example_collaborators example_constants example_healthy example_jump) ! 0)
     (prev_angles example_healthy ! 0) = 0" by code_simp
  have m: "MAX_FISHY_VALS example_constants = 1" by code_simp
  from full_window_faulty_iff [OF a b, of 2 example_collaborators example_jump]
    full_window_faulty_iff [OF a b, of 0 example_collaborators example_jump] n n0 m
  show ?thesis by simp
qed

text \<open>
  Claim C4 as stated fails: with full windows of readings \<open>0.2\<close> and no error pending, the
  single reading \<open>3.0\<close> of joint C raises \<open>encoder_error\<close> by itself.
\<close>

theorem single_jump_raises_encoder_error:
  "prev_angles example_healthy = replicate 6 (replicate 5 (2 / 10)) \<and>
   \<not> encoder_error example_healthy \<and>
   msg_angles example_jump = [2 / 10, 2 / 10, 3, 2 / 10, 2 / 10, 2 / 10] \<and>
   encoder_error (fst (arm_position_callback example_collaborators example_constants
      example_healthy example_jump))"
  by code_simp


subsection \<open>What is pushed onto the windows\<close>

text \<open>
  Claim C5, as amended. For every joint, faulty or not, the value pushed onto its window
  (after the oldest entry of a full window is dropped) is the reading as the dud and limit
  checks left it; the push comes before the substitution. The substitution reaches only
  what goes downstream: outside a preview, the vector handed to \<open>set_joint_angles\<close> carries
  the model's current angle for a joint marked faulty and the checked reading otherwise.
\<close>

theorem window_gets_checked_reading:
  assumes "length (prev_angles s) = 6" and "joint < 6"
  shows "prev_angles (fst (arm_position_callback d c s msg)) ! joint =
           fst (checked_reading d c s msg) ! joint #
           (if MAX_NUM_PREV_ANGLES c \<le> length (prev_angles s ! joint)
            then butlast (prev_angles s ! joint) else prev_angles s ! joint) \<and>
         (\<not> previewing s \<longrightarrow>
            (\<exists>a5. state (fst (arm_position_callback d c s msg)) =
                     FK d (set_joint_angles d (state s) a5) \<and>
                   length a5 = 6 \<and>
                   a5 ! joint =
                     (if faulty_encoders (fst (arm_position_callback d c s msg)) ! joint
                      then get_joint_angle (state s) joint
                      else fst (checked_reading d c s msg) ! joint)))"
proof -
  obtain f' e' m' p' a5 where
    P: "push_readings c (state s) f' (prev_angles s, fst (checked_reading d c s msg)) = (p', a5)"
    and C: "prev_angles (fst (arm_position_callback d c s msg)) = p'"
           "faulty_encoders (fst (arm_position_callback d c s msg)) = f'"
           "\<not> previewing s \<Longrightarrow>
              state (fst (arm_position_callback d c s msg)) = FK d (set_joint_angles d (state s) a5)"
    by (rule arm_position_callback_parts [of c d s msg]) auto
  from P have "fold (push_reading c (state s) f') [0..<6]
      (prev_angles s, fst (checked_reading d c s msg)) = (p', a5)"
    by (simp add: push_readings_def)
  note F = push_readings_fold [OF this]
  from F assms have 1: "p' ! joint = fst (checked_reading d c s msg) ! joint #
           (if MAX_NUM_PREV_ANGLES c \<le> length (prev_angles s ! joint)
            then butlast (prev_angles s ! joint) else prev_angles s ! joint)"
    by simp
  from F have 2: "length a5 = 6" by (simp add: length_checked_reading)
  from F assms(2) have 3: "a5 ! joint =
      (if f' ! joint then get_joint_angle (state s) joint
       else fst (checked_reading d c s msg) ! joint)"
    by (simp add: length_checked_reading)
  show ?thesis unfolding C(1,2) using 1 2 3 C(3) by blast
qed

text \<open>The theorem at the jump of joint C.\<close>

theorem window_gets_checked_reading_witness:
  "prev_angles (fst (arm_position_callback example_collaborators example_constants
      example_healthy example_jump)) ! 2 = [3, 2 / 10, 2 / 10, 2 / 10, 2 / 10] \<and>
   (\<exists>a5. state (fst (arm_position_callback example_collaborators example_constants
             example_healthy example_jump)) =
           FK example_collaborators
             (set_joint_angles example_collaborators (state example_healthy) a5) \<and>
          length a5 = 6 \<and> a5 ! 2 = 2 / 10)"
proof -
  have a: "length (prev_angles example_healthy) = 6" by code_simp
  have b: "(2::nat) < 6" by simp
  have p: "\<not> previewing example_healthy" by code_simp
  have r: "fst (checked_reading example_collaborators example_constants example_healthy
      example_jump) ! 2 = 3" by code_simp
  have w: "prev_angles example_healthy ! 2 = [2 / 10, 2 / 10, 2 / 10, 2 / 10, 2 / 10]"
    by code_simp
  have m: "MAX_NUM_PREV_ANGLES example_constants = 5" by code_simp
  have f: "faulty_encoders (fst (arm_position_callback example_collaborators example_constants
      example_healthy example_jump)) ! 2" by code_simp
  have g: "get_joint_angle (state example_healthy) 2 = 2 / 10" by code_simp
  from window_gets_checked_reading [OF a b, of example_collaborators example_constants example_jump]
  show ?thesis unfolding r w m using p f g by simp
qed

text \<open>
  Claim C5 as stated fails: joint C is marked faulty, the model keeps its angle \<open>0.2\<close>, and
  the head of the joint's window is the faulty reading \<open>3.0\<close>, not the substituted value.
\<close>

theorem faulty_reading_reaches_window:
  "faulty_encoders (fst (arm_position_callback example_collaborators example_constants
      example_healthy example_jump)) ! 2 \<and>
   get_joint_angle (state example_healthy) 2 = 2 / 10 \<and>
   get_joint_angle (state (fst (arm_position_callback example_collaborators example_constants
      example_healthy example_jump))) 2 = 2 / 10 \<and>
   hd (prev_angles (fst (arm_position_callback example_collaborators example_constants
      example_healthy example_jump)) ! 2) = 3"
  by code_simp

subsection \<open>The lifetime of \<open>encoder_error\<close>\<close>

text \<open>
  Claim C6, as amended. Every encoder message recomputes \<open>encoder_error\<close>: the handler
  resets the flag and its message first, so its result does not depend on their values
  before; after the message the flag is set exactly when the limit check flagged a joint
  or the temporal check marked one (a failed comparison while the windows are short,
  more than \<open>MAX_FISHY_VALS\<close> failed comparisons once they are full).
\<close>

theorem encoder_error_recomputed:
  "arm_position_callback d c (s\<lparr>encoder_error := b, encoder_error_message := m\<rparr>) msg =
     arm_position_callback d c s msg \<and>
   encoder_error (fst (arm_position_callback d c s msg)) =
     (fst (snd (checked_reading d c s msg)) \<or>
      (\<exists>j<6. if length (prev_angles s ! 0) < MAX_NUM_PREV_ANGLES c
              then jump_scan (ENCODER_ERROR_THRESHOLD c) (fst (checked_reading d c s msg) ! j) 0
                     (prev_angles s ! j) = Some True
              else MAX_FISHY_VALS c <
                     num_fishy_vals c (fst (checked_reading d c s msg) ! j) (prev_angles s ! j)))"
proof
  have "checked_reading d c (s\<lparr>encoder_error := b, encoder_error_message := m\<rparr>) msg =
      checked_reading d c s msg"
    by (simp add: checked_reading_def check_dud_encoder_def Let_def cong: if_cong)
  then show "arm_position_callback d c (s\<lparr>encoder_error := b, encoder_error_message := m\<rparr>) msg =
     arm_position_callback d c s msg"
    by (simp add: arm_position_callback_def Let_def split: prod.splits)
next
  obtain f' e' m' p' a5 where
    J: "jump_check c (fst (checked_reading d c s msg)) (prev_angles s)
          (faulty_encoders s, snd (checked_reading d c s msg)) = (f', e', m')"
    and C: "encoder_error (fst (arm_position_callback d c s msg)) = e'"
    by (rule arm_position_callback_parts [of c d s msg]) auto
  let ?R = "checked_reading d c s msg"
  show "encoder_error (fst (arm_position_callback d c s msg)) =
     (fst (snd ?R) \<or>
      (\<exists>j<6. if length (prev_angles s ! 0) < MAX_NUM_PREV_ANGLES c
              then jump_scan (ENCODER_ERROR_THRESHOLD c) (fst ?R ! j) 0 (prev_angles s ! j) = Some True
              else MAX_FISHY_VALS c < num_fishy_vals c (fst ?R ! j) (prev_angles s ! j)))"
  proof (cases "length (prev_angles s ! 0) < MAX_NUM_PREV_ANGLES c")
    case True
    with J have "fold (jump_check_short c (fst ?R) (prev_angles s)) [0..<6]
        (faulty_encoders s, fst (snd ?R), snd (snd ?R)) = (f', e', m')"
      by (simp add: jump_check_def)
    from jump_check_short_fold [OF this] True show ?thesis unfolding C by simp
  next
    case False
    with J have "fold (jump_check_full c (fst ?R) (prev_angles s)) [0..<6]
        (faulty_encoders s, fst (snd ?R), snd (snd ?R)) = (f', e', m')"
      by (simp add: jump_check_def)
    from jump_check_full_fold [OF this] False show ?thesis unfolding C by simp
  qed
qed

text \<open>The theorem at a steady reading, with the flag set beforehand.\<close>

theorem encoder_error_recomputed_witness:
  "arm_position_callback example_collaborators example_constants
     (example_healthy\<lparr>encoder_error := True, encoder_error_message := ''x''\<rparr>) example_steady =
   arm_position_callback example_collaborators example_constants example_healthy example_steady \<and>
   \<not> encoder_error (fst (arm_position_callback example_collaborators example_constants
        example_healthy example_steady))"
proof -
  have "\<not> encoder_error (fst (arm_position_callback example_collaborators example_constants
        example_healthy example_steady))" by code_simp
  with encoder_error_recomputed [where d = example_collaborators and c = example_constants
      and s = example_healthy and b = True and m = "''x''" and msg = example_steady]
  show ?thesis by blast
qed

text \<open>
  Claim C6 as stated fails: the jump of joint C raises \<open>encoder_error\<close>, and the very next
  message, a steady reading, clears it, while the jump is still in the window.
\<close>

theorem one_message_clears_encoder_error:
  "encoder_error (fst (arm_position_callback example_collaborators example_constants
      example_healthy example_jump)) \<and>
   \<not> encoder_error (fst (arm_position_callback example_collaborators example_constants
      (fst (arm_position_callback example_collaborators example_constants
         example_healthy example_jump)) example_steady))"
  by code_simp

subsection \<open>The execute message\<close>

text \<open>
  Claim C2, as amended. A \<open>motion_execute\<close> message with \<open>preview = true\<close> changes nothing in
  the controller: \<open>enable_execute\<close> keeps its value, and an execution under way goes on. With
  \<open>preview = false\<close> the message enables execution. What cancels an execution from outside
  is an \<open>ik_enabled\<close> message with \<open>enabled = false\<close>.
\<close>

theorem preview_toggle_changes_nothing:
  "motion_execute_callback s True = s \<and>
   enable_execute (motion_execute_callback s False) \<and>
   \<not> enable_execute (fst (ik_enabled_callback s False))"
  by (simp add: motion_execute_callback_def ik_enabled_callback_def)

text \<open>
  Claim C2 as stated fails: the controller is executing, receives the message with
  \<open>preview = true\<close>, and is still executing.
\<close>

theorem preview_message_does_not_cancel:
  "enable_execute example_straight \<and>
   enable_execute (motion_execute_callback example_straight True)"
  by code_simp

subsection \<open>A target from an unsafe configuration\<close>

text \<open>
  Claim C3. When \<open>is_safe\<close> fails on the current configuration, a target pose is rejected:
  the handler publishes the one message \<open>Unsafe Starting Position\<close> on \<open>/debug_message\<close>, calls
  neither the solver's \<open>IK\<close> nor the planner, and leaves every member of the controller as
  it was.
\<close>

theorem unsafe_start_rejected:
  assumes "\<not> is_safe d (state s)"
  shows "target_orientation_callback d s msg =
           (s, [Debug_message False ''Unsafe Starting Position''])"
  using assms by (simp add: target_orientation_callback_def)

text \<open>The theorem on an arm whose angles \<open>4\<close> lie beyond the limits \<open>(-3, 3)\<close>.\<close>

theorem unsafe_start_rejected_witness:
  "target_orientation_callback example_collaborators
     (example_healthy\<lparr>state := example_arm 4\<rparr>) example_target =
   (example_healthy\<lparr>state := example_arm 4\<rparr>,
    [Debug_message False ''Unsafe Starting Position''])"
proof -
  have "\<not> is_safe example_collaborators (state (example_healthy\<lparr>state := example_arm 4\<rparr>))"
    by code_simp
  from unsafe_start_rejected [OF this] show ?thesis .
qed

subsection \<open>Preview and the live arm model\<close>

lemma state_preview:
  assumes "preview d s h = (s', h', es)"
  shows "state s' = state s"
  using assms by (auto simp: preview_def Let_def split: prod.splits)

lemma state_plan_path:
  assumes "plan_path d s h goal = (s', h', es)"
  shows "state s' = state s"
proof -
  obtain p h1 found where R: "rrt_connect d (motion_planner s) h goal = (p, h1, found)"
    by (metis prod_cases3)
  show ?thesis
  proof (cases found)
    case True
    obtain s2 h2 es2 where P: "preview d (s\<lparr>motion_planner := p\<rparr>) h1 = (s2, h2, es2)"
      by (metis prod_cases3)
    from state_preview [OF P] have "state s2 = state s" by simp
    with assms R True P show ?thesis by (simp add: plan_path_def)
  next
    case False
    with assms R show ?thesis by (auto simp: plan_path_def)
  qed
qed

text \<open>
  Claim C8. A preview leaves the controller's own arm state as it was, angles and
  transforms: \<open>preview\<close> works on the hypothetical state it is handed, and so do the two
  target handlers that reach it through \<open>plan_path\<close>. An encoder message handled while
  \<open>previewing\<close> is set leaves the arm state as it was too, and publishes no transforms.
\<close>

theorem preview_keeps_arm_model:
  "state (fst (preview d s h)) = state s \<and>
   state (fst (target_angles_callback d s amsg)) = state s \<and>
   state (fst (target_orientation_callback d s tmsg)) = state s \<and>
   (previewing s \<longrightarrow>
      state (fst (arm_position_callback d c s msg)) = state s \<and>
      snd (arm_position_callback d c s msg) = [])"
proof (intro conjI impI)
  show "state (fst (preview d s h)) = state s"
    using state_preview [of d s h] by (metis prod.collapse)
  show "state (fst (target_angles_callback d s amsg)) = state s"
  proof -
    obtain s2 h2 es where P: "plan_path d (s\<lparr>enable_execute := False\<rparr>) (state s) (msg_angles amsg) = (s2, h2, es)"
      by (metis prod_cases3)
    from state_plan_path [OF P] P show ?thesis
      by (simp add: target_angles_callback_def Let_def)
  qed
  show "state (fst (target_orientation_callback d s tmsg)) = state s"
  proof (cases "is_safe d (state s)")
    case False
    then show ?thesis by (simp add: target_orientation_callback_def)
  next
    case True
    let ?point = "[pos_x tmsg, pos_y tmsg, pos_z tmsg, rot_alpha tmsg, rot_beta tmsg, rot_gamma tmsg]"
    obtain k h1 sol ok es where I: "IK_restarts d 25 ?point (use_orientation tmsg)
        (IK d (solver s) (state s) ?point False (use_orientation tmsg)) = ((k, h1, sol, ok), es)"
      by (metis prod_cases4 surj_pair)
    show ?thesis
    proof (cases ok)
      case False
      with True I show ?thesis by (simp add: target_orientation_callback_def Let_def)
    next
      case ok: True
      obtain s2 h2 es2 where P: "plan_path d (s\<lparr>enable_execute := False, solver := k\<rparr>) h1 sol = (s2, h2, es2)"
        by (metis prod_cases3)
      from state_plan_path [OF P] have "state s2 = state s" by simp
      with True I ok P show ?thesis by (simp add: target_orientation_callback_def Let_def)
    qed
  qed
  assume "previewing s"
  then show "state (fst (arm_position_callback d c s msg)) = state s"
    and "snd (arm_position_callback d c s msg) = []"
    by (simp_all add: arm_position_callback_def Let_def split: prod.splits)
qed

text \<open>The theorem on the healthy controller, and on the same controller while previewing.\<close>

theorem preview_keeps_arm_model_witness:
  "state (fst (preview example_collaborators example_healthy (state example_healthy))) =
     state example_healthy \<and>
   state (fst (target_angles_callback example_collaborators example_healthy example_jump)) =
     state example_healthy \<and>
   state (fst (target_orientation_callback example_collaborators example_healthy example_target)) =
     state example_healthy \<and>
   state (fst (arm_position_callback example_collaborators example_constants
     (example_healthy\<lparr>previewing := True\<rparr>) example_jump)) = state example_healthy \<and>
   snd (arm_position_callback example_collaborators example_constants
     (example_healthy\<lparr>previewing := True\<rparr>) example_jump) = []"
proof -
  have p: "previewing (example_healthy\<lparr>previewing := True\<rparr>)" by simp
  from preview_keeps_arm_model [of example_collaborators example_healthy "state example_healthy"
      example_jump example_target]
    preview_keeps_arm_model [of example_collaborators "example_healthy\<lparr>previewing := True\<rparr>"
      "state example_healthy" example_jump example_target example_constants example_jump] p
  show ?thesis by simp
qed

subsection \<open>The executor on an encoder error\<close>

lemma concat_replicate_single: "concat (replicate n [a]) = replicate n a"
  by (induction n) auto

text \<open>
  Claim C10. When the executor finds \<open>encoder_error\<close> set while \<open>enable_execute\<close> is set, it
  clears \<open>enable_execute\<close>, resets the spline parameter to 0, clears \<open>ik_enabled\<close> and
  publishes the error message, flagged as an error, on \<open>/debug_message\<close>; in simulation mode,
  and only then, it also publishes the model's current angles \<open>MAX_NUM_PREV_ANGLES\<close> times on
  \<open>/arm_position\<close>.
\<close>

theorem encoder_error_stops_execution:
  assumes "enable_execute s" and "encoder_error s"
  shows "execute_spline_step d c s =
           (s\<lparr>enable_execute := False, spline_t := 0, ik_enabled := False\<rparr>,
            Debug_message True (encoder_error_message s) #
            (if sim_mode s
             then replicate (MAX_NUM_PREV_ANGLES c)
                    (Config ''/arm_position'' (map (\<lambda>i. get_joint_angles (state s) ! i) [0..<6]))
             else []))"
  using assms
  by (simp add: execute_spline_step_def publish_config_def concat_replicate_single)

text \<open>The theorem on a simulated run with an error pending: five copies of the angles.\<close>

theorem encoder_error_stops_execution_witness:
  "execute_spline_step example_collaborators example_constants
     (example_straight\<lparr>encoder_error := True, encoder_error_message := ''Encoder Error''\<rparr>) =
   (example_straight\<lparr>encoder_error := True, encoder_error_message := ''Encoder Error'',
      enable_execute := False, spline_t := 0, ik_enabled := False\<rparr>,
    [Debug_message True ''Encoder Error'',
     Config ''/arm_position'' [0, 0, 0, 0, 0, 0], Config ''/arm_position'' [0, 0, 0, 0, 0, 0],
     Config ''/arm_position'' [0, 0, 0, 0, 0, 0], Config ''/arm_position'' [0, 0, 0, 0, 0, 0],
     Config ''/arm_position'' [0, 0, 0, 0, 0, 0]])"
proof -
  let ?s = "example_straight\<lparr>encoder_error := True, encoder_error_message := ''Encoder Error''\<rparr>"
  have a: "enable_execute ?s" by code_simp
  have b: "encoder_error ?s" by simp
  have c: "sim_mode ?s" by code_simp
  have m: "MAX_NUM_PREV_ANGLES example_constants = 5" by code_simp
  have g: "map (\<lambda>i. get_joint_angles (state ?s) ! i) [0..<6] = [0, 0, 0, 0, 0, 0]" by code_simp
  have r: "replicate 5 x = [x, x, x, x, x]" for x :: effect by code_simp
  from encoder_error_stops_execution [OF a b, of example_collaborators example_constants]
  show ?thesis unfolding m g using c by (simp add: r)
qed

subsection \<open>The pointwise loops of the executor\<close>

lemma fold_upt_pointwise:
  "length (fold (\<lambda>i a. a[i := g i (a ! i)]) [0..<n] xs) = length xs \<and>
   (\<forall>j<length xs. fold (\<lambda>i a. a[i := g i (a ! i)]) [0..<n] xs ! j =
      (if j < n then g j (xs ! j) else xs ! j))"
  by (induction n) (auto simp: nth_list_update less_Suc_eq)

lemma adjust_encoders_nth:
  assumes "i < length xs"
  shows "adjust_encoders st xs ! i =
           (if i < 6 then (xs ! i - get_joint_encoder_offset st i) * get_joint_encoder_multiplier st i
            else xs ! i)"
  using assms
    fold_upt_pointwise [of "\<lambda>i v. (v - get_joint_encoder_offset st i) * get_joint_encoder_multiplier st i" 6 xs]
  by (simp add: adjust_encoders_def)

lemma to_encoder_units_nth:
  assumes "i < length xs"
  shows "to_encoder_units st xs ! i =
           (if i < 6 then xs ! i * get_joint_encoder_multiplier st i + get_joint_encoder_offset st i
            else xs ! i)"
  using assms
    fold_upt_pointwise [of "\<lambda>i v. v * get_joint_encoder_multiplier st i + get_joint_encoder_offset st i" 6 xs]
  by (simp add: to_encoder_units_def)

lemma length_to_encoder_units: "length (to_encoder_units st xs) = length xs"
  using fold_upt_pointwise [of "\<lambda>i v. v * get_joint_encoder_multiplier st i + get_joint_encoder_offset st i" 6 xs]
  by (simp add: to_encoder_units_def)

lemma clamp_to_limits_pointwise:
  "clamp_to_limits st xs =
     fold (\<lambda>i a. a[i := (\<lambda>i v. if v < fst (get_joint_limits st i) then fst (get_joint_limits st i)
                                 else if v > snd (get_joint_limits st i) then snd (get_joint_limits st i)
                                 else v) i (a ! i)]) [0..<6] xs"
proof -
  have "(\<lambda>i t. if t ! i < fst (get_joint_limits st i) then t[i := fst (get_joint_limits st i)]
         else if t ! i > snd (get_joint_limits st i) then t[i := snd (get_joint_limits st i)]
         else t) =
        (\<lambda>i a. a[i := (\<lambda>i v. if v < fst (get_joint_limits st i) then fst (get_joint_limits st i)
                                 else if v > snd (get_joint_limits st i) then snd (get_joint_limits st i)
                                 else v) i (a ! i)])"
    by (intro ext) simp
  then show ?thesis by (simp add: clamp_to_limits_def)
qed

lemma clamp_to_limits_nth:
  assumes "i < length xs" and "i < 6"
  shows "clamp_to_limits st xs ! i =
           (if xs ! i < fst (get_joint_limits st i) then fst (get_joint_limits st i)
            else if xs ! i > snd (get_joint_limits st i) then snd (get_joint_limits st i)
            else xs ! i)"
  unfolding clamp_to_limits_pointwise
  using assms
    fold_upt_pointwise [of "\<lambda>i v. if v < fst (get_joint_limits st i) then fst (get_joint_limits st i)
                                 else if v > snd (get_joint_limits st i) then snd (get_joint_limits st i)
                                 else v" 6 xs]
  by simp


subsection \<open>The pacing of the executor\<close>

lemma fold_max_ge:
  fixes f :: "nat \<Rightarrow> real"
  shows "m0 \<le> fold (\<lambda>i m. if m < f i then f i else m) [0..<n] m0 \<and>
         (\<forall>i<n. f i \<le> fold (\<lambda>i m. if m < f i then f i else m) [0..<n] m0)"
  by (induction n) (auto simp: less_Suc_eq)

lemma max_time_fold:
  "max_time st init_angles final_angles =
     fold (\<lambda>i m. if m < \<bar>final_angles ! i - init_angles ! i\<bar> / (get_joint_max_speed st i * 3 / 4 / 1000)
                  then \<bar>final_angles ! i - init_angles ! i\<bar> / (get_joint_max_speed st i * 3 / 4 / 1000)
                  else m) [0..<5] (- 1)"
  unfolding max_time_def Let_def by (rule refl)

lemma joint_time_le_max_time:
  assumes "i < 5"
  shows "\<bar>final_angles ! i - init_angles ! i\<bar> / (get_joint_max_speed st i * 3 / 4 / 1000)
           \<le> max_time st init_angles final_angles"
  unfolding max_time_fold
  using assms
    fold_max_ge [of "- 1"
      "\<lambda>i. \<bar>final_angles ! i - init_angles ! i\<bar> / (get_joint_max_speed st i * 3 / 4 / 1000)" 5]
  by simp

lemma scaled_travel_bound:
  fixes dist speed mt W :: real
  assumes "0 < speed" and "0 < mt" and "0 < W" and "dist / (speed * 3 / 4 / 1000) \<le> mt"
  shows "W / mt * dist \<le> speed * (3 / 4) * W / 1000"
proof -
  from assms(1,4) have "dist \<le> mt * (speed * 3 / 4 / 1000)"
    by (simp add: pos_divide_le_eq)
  moreover from assms(2,3) have "0 \<le> W / mt" by simp
  ultimately have "W / mt * dist \<le> W / mt * (mt * (speed * 3 / 4 / 1000))"
    by (rule mult_left_mono)
  also from assms(2) have "W / mt * (mt * (speed * 3 / 4 / 1000)) = speed * (3 / 4) * W / 1000"
    by simp
  finally show ?thesis .
qed

lemma clamp_moves_closer:
  fixes v a lo hi :: real
  assumes "lo \<le> a" and "a \<le> hi"
  shows "\<bar>(if v < lo then lo else if v > hi then hi else v) - a\<bar> \<le> \<bar>v - a\<bar>"
  using assms by auto

lemma execute_spline_step_setpoint:
  assumes "enable_execute s" and "\<not> encoder_error s"
    and "max_time (state s) (get_joint_angles (state s))
           (get_spline_pos d (motion_planner s) (spline_t s + D_SPLINE_T c)) \<noteq> 0"
    and "spline_t s + spline_t_iterator d c s \<le> 1"
  shows "execute_spline_step d c s =
           (if \<not> sim_mode s
            then (s\<lparr>spline_t := spline_t s + spline_t_iterator d c s\<rparr>,
                  Call_get_spline_pos (spline_t s + D_SPLINE_T c) #
                  Call_get_spline_pos (spline_t s + spline_t_iterator d c s) #
                  publish_config (to_encoder_units (state s) (target_angles d c s)) ''/ik_ra_control'')
            else (s\<lparr>spline_t := spline_t s + spline_t_iterator d c s,
                    state := set_joint_angles d (state s) (target_angles d c s)\<rparr>,
                  [Call_get_spline_pos (spline_t s + D_SPLINE_T c),
                   Call_get_spline_pos (spline_t s + spline_t_iterator d c s)]))"
  using assms by (simp add: execute_spline_step_def Let_def)

text \<open>
  Claim C1, as amended. At a tick where some joint A to E has to move (\<open>max_time\<close> is not
  zero), with positive maximum speeds and constants, the increment \<open>\<Delta>t\<close> of the spline
  parameter is such that, for every joint \<open>i\<close> in A to E, the fraction \<open>\<Delta>t / D_SPLINE_T\<close> of
  the distance from the current angle to the lookahead point \<open>spline(t + D_SPLINE_T)\<close> is at
  most \<open>max_speed\<^sub>i * 0.75 * SPLINE_WAIT_TIME / 1000\<close>. The commanded change of the setpoint
  itself, \<open>\<bar>target\<^sub>i - \<theta>\<^sub>i\<bar>\<close>, obeys this bound when the spline is straight over the step
  (\<open>spline(t + \<Delta>t)\<^sub>i - \<theta>\<^sub>i = (\<Delta>t / D_SPLINE_T) * (spline(t + D_SPLINE_T)\<^sub>i - \<theta>\<^sub>i)\<close>) and the
  current angle is within the joint's limits. The setpoint of the tick is \<open>target_angles\<close>:
  stored as the current state in simulation mode, published in raw units otherwise.
\<close>

theorem linear_step_within_speed:
  assumes W: "0 < SPLINE_WAIT_TIME c" and D: "0 < D_SPLINE_T c"
    and speeds: "\<forall>j<5. 0 < get_joint_max_speed (state s) j"
    and moving: "max_time (state s) (get_joint_angles (state s))
                   (get_spline_pos d (motion_planner s) (spline_t s + D_SPLINE_T c)) \<noteq> 0"
    and i: "i < 5"
  shows "spline_t_iterator d c s / D_SPLINE_T c *
           \<bar>get_spline_pos d (motion_planner s) (spline_t s + D_SPLINE_T c) ! i -
            get_joint_angles (state s) ! i\<bar>
         \<le> get_joint_max_speed (state s) i * (3 / 4) * SPLINE_WAIT_TIME c / 1000 \<and>
         (length (get_spline_pos d (motion_planner s) (spline_t s + spline_t_iterator d c s)) = 6 \<and>
          fst (get_joint_limits (state s) i) \<le> get_joint_angles (state s) ! i \<and>
          get_joint_angles (state s) ! i \<le> snd (get_joint_limits (state s) i) \<and>
          get_spline_pos d (motion_planner s) (spline_t s + spline_t_iterator d c s) ! i -
            get_joint_angles (state s) ! i =
          spline_t_iterator d c s / D_SPLINE_T c *
            (get_spline_pos d (motion_planner s) (spline_t s + D_SPLINE_T c) ! i -
             get_joint_angles (state s) ! i)
          \<longrightarrow> \<bar>target_angles d c s ! i - get_joint_angles (state s) ! i\<bar>
                \<le> get_joint_max_speed (state s) i * (3 / 4) * SPLINE_WAIT_TIME c / 1000) \<and>
         (enable_execute s \<and> \<not> encoder_error s \<and> spline_t s + spline_t_iterator d c s \<le> 1
          \<longrightarrow> (if sim_mode s
               then state (fst (execute_spline_step d c s)) =
                      set_joint_angles d (state s) (target_angles d c s)
               else Config ''/ik_ra_control''
                      (map (\<lambda>j. to_encoder_units (state s) (target_angles d c s) ! j) [0..<6])
                    \<in> set (snd (execute_spline_step d c s))))"
proof -
  let ?init = "get_joint_angles (state s)"
  let ?final = "get_spline_pos d (motion_planner s) (spline_t s + D_SPLINE_T c)"
  let ?mt = "max_time (state s) ?init ?final"
  let ?it = "spline_t_iterator d c s"
  let ?bound = "get_joint_max_speed (state s) i * (3 / 4) * SPLINE_WAIT_TIME c / 1000"
  from speeds i have sp: "0 < get_joint_max_speed (state s) i" by simp
  have jt: "\<bar>?final ! i - ?init ! i\<bar> / (get_joint_max_speed (state s) i * 3 / 4 / 1000) \<le> ?mt"
    by (rule joint_time_le_max_time [OF i])
  have "0 \<le> \<bar>?final ! i - ?init ! i\<bar> / (get_joint_max_speed (state s) i * 3 / 4 / 1000)"
    using sp by simp
  with jt moving have mt: "0 < ?mt" by linarith
  have ratio: "?it / D_SPLINE_T c = SPLINE_WAIT_TIME c / ?mt"
    using D W mt by (simp add: spline_t_iterator_def field_simps)
  have A: "?it / D_SPLINE_T c * \<bar>?final ! i - ?init ! i\<bar> \<le> ?bound"
    unfolding ratio by (rule scaled_travel_bound [OF sp mt W jt])
  have B: "\<bar>target_angles d c s ! i - ?init ! i\<bar> \<le> ?bound"
    if len: "length (get_spline_pos d (motion_planner s) (spline_t s + ?it)) = 6"
      and lo: "fst (get_joint_limits (state s) i) \<le> ?init ! i"
      and hi: "?init ! i \<le> snd (get_joint_limits (state s) i)"
      and lin: "get_spline_pos d (motion_planner s) (spline_t s + ?it) ! i - ?init ! i =
                ?it / D_SPLINE_T c * (?final ! i - ?init ! i)"
  proof -
    let ?v = "get_spline_pos d (motion_planner s) (spline_t s + ?it) ! i"
    from i len have "target_angles d c s ! i =
        (if ?v < fst (get_joint_limits (state s) i) then fst (get_joint_limits (state s) i)
         else if ?v > snd (get_joint_limits (state s) i) then snd (get_joint_limits (state s) i)
         else ?v)"
      by (simp add: target_angles_def clamp_to_limits_nth)
    then have "\<bar>target_angles d c s ! i - ?init ! i\<bar> \<le> \<bar>?v - ?init ! i\<bar>"
      using clamp_moves_closer [OF lo hi, of ?v] by simp
    also have "\<bar>?v - ?init ! i\<bar> = \<bar>?it / D_SPLINE_T c\<bar> * \<bar>?final ! i - ?init ! i\<bar>"
      unfolding lin by (simp add: abs_mult)
    also have "\<bar>?it / D_SPLINE_T c\<bar> = ?it / D_SPLINE_T c"
      unfolding ratio using W mt by simp
    finally show ?thesis using A by linarith
  qed
  have C: "if sim_mode s
           then state (fst (execute_spline_step d c s)) =
                  set_joint_angles d (state s) (target_angles d c s)
           else Config ''/ik_ra_control''
                  (map (\<lambda>j. to_encoder_units (state s) (target_angles d c s) ! j) [0..<6])
                \<in> set (snd (execute_spline_step d c s))"
    if "enable_execute s" and "\<not> encoder_error s" and "spline_t s + ?it \<le> 1"
    using execute_spline_step_setpoint [OF that(1,2) moving that(3)]
    by (simp add: publish_config_def)
  from A B C show ?thesis by blast
qed

text \<open>The theorem on the first tick along the straight spline, where the bound is attained.\<close>

theorem linear_step_within_speed_witness:
  "spline_t_iterator example_collaborators example_constants example_straight = 1 / 4 \<and>
   target_angles example_collaborators example_constants example_straight ! 0 = 15 / 1000 \<and>
   \<bar>target_angles example_collaborators example_constants example_straight ! 0 -
     get_joint_angles (state example_straight) ! 0\<bar>
     \<le> get_joint_max_speed (state example_straight) 0 * (3 / 4) *
        SPLINE_WAIT_TIME example_constants / 1000 \<and>
   state (fst (execute_spline_step example_collaborators example_constants example_straight)) =
     set_joint_angles example_collaborators (state example_straight)
       (target_angles example_collaborators example_constants example_straight)"
proof -
  let ?d = example_collaborators and ?c = example_constants and ?s = example_straight
  have W: "0 < SPLINE_WAIT_TIME ?c" and D: "0 < D_SPLINE_T ?c" by code_simp+
  have speeds: "\<forall>j<5. 0 < get_joint_max_speed (state ?s) j" by code_simp
  have moving: "max_time (state ?s) (get_joint_angles (state ?s))
      (get_spline_pos ?d (motion_planner ?s) (spline_t ?s + D_SPLINE_T ?c)) \<noteq> 0" by code_simp
  have i: "(0::nat) < 5" by simp
  have it: "spline_t_iterator ?d ?c ?s = 1 / 4" by code_simp
  have tg: "target_angles ?d ?c ?s ! 0 = 15 / 1000" by code_simp
  have h: "length (get_spline_pos ?d (motion_planner ?s) (spline_t ?s + spline_t_iterator ?d ?c ?s)) = 6 \<and>
      fst (get_joint_limits (state ?s) 0) \<le> get_joint_angles (state ?s) ! 0 \<and>
      get_joint_angles (state ?s) ! 0 \<le> snd (get_joint_limits (state ?s) 0) \<and>
      get_spline_pos ?d (motion_planner ?s) (spline_t ?s + spline_t_iterator ?d ?c ?s) ! 0 -
        get_joint_angles (state ?s) ! 0 =
      spline_t_iterator ?d ?c ?s / D_SPLINE_T ?c *
        (get_spline_pos ?d (motion_planner ?s) (spline_t ?s + D_SPLINE_T ?c) ! 0 -
         get_joint_angles (state ?s) ! 0)" by code_simp
  have e: "enable_execute ?s \<and> \<not> encoder_error ?s \<and>
      spline_t ?s + spline_t_iterator ?d ?c ?s \<le> 1" by code_simp
  have sm: "sim_mode ?s" by code_simp
  note T = linear_step_within_speed [OF W D speeds moving i]
  from T h have b: "\<bar>target_angles ?d ?c ?s ! 0 - get_joint_angles (state ?s) ! 0\<bar>
      \<le> get_joint_max_speed (state ?s) 0 * (3 / 4) * SPLINE_WAIT_TIME ?c / 1000"
    by blast
  from T e have "if sim_mode ?s
      then state (fst (execute_spline_step ?d ?c ?s)) =
             set_joint_angles ?d (state ?s) (target_angles ?d ?c ?s)
      else Config ''/ik_ra_control''
             (map (\<lambda>j. to_encoder_units (state ?s) (target_angles ?d ?c ?s) ! j) [0..<6])
           \<in> set (snd (execute_spline_step ?d ?c ?s))"
    by blast
  with sm have u: "state (fst (execute_spline_step ?d ?c ?s)) =
      set_joint_angles ?d (state ?s) (target_angles ?d ?c ?s)"
    by simp
  from it tg b u show ?thesis by blast
qed

text \<open>
  Claim C1 as stated fails: on the first tick along the parabola \<open>t\<^sup>2\<close>, with maximum speed 1,
  \<open>D_SPLINE_T = 0.05\<close> and \<open>SPLINE_WAIT_TIME = 20\<close>, the lookahead point is \<open>0.0025\<close> away, the
  increment is \<open>0.3\<close>, and joint A is commanded from 0 to \<open>0.09\<close>, six times the bound \<open>0.015\<close>.
\<close>

theorem curved_spline_exceeds_speed:
  "enable_execute example_curved \<and> \<not> encoder_error example_curved \<and>
   get_joint_angle (state example_curved) 0 = 0 \<and>
   spline_t_iterator example_collaborators example_constants example_curved = 3 / 10 \<and>
   target_angles example_collaborators example_constants example_curved ! 0 = 9 / 100 \<and>
   state (fst (execute_spline_step example_collaborators example_constants example_curved)) =
     set_joint_angles example_collaborators (state example_curved)
       (target_angles example_collaborators example_constants example_curved) \<and>
   \<not> \<bar>target_angles example_collaborators example_constants example_curved ! 0 -
        get_joint_angle (state example_curved) 0\<bar>
       \<le> get_joint_max_speed (state example_curved) 0 * (3 / 4) *
          SPLINE_WAIT_TIME example_constants / 1000"
  by code_simp

subsection \<open>The encoder mapping and its use on setpoints\<close>

text \<open>
  In hardware mode a tick that issues a setpoint publishes, on \<open>/ik_ra_control\<close>, each
  joint of the setpoint multiplied by the encoder multiplier, plus the encoder offset.
\<close>

lemma hardware_setpoint_emitted:
  assumes "enable_execute s" and "\<not> encoder_error s" and "\<not> sim_mode s"
    and "max_time (state s) (get_joint_angles (state s))
           (get_spline_pos d (motion_planner s) (spline_t s + D_SPLINE_T c)) \<noteq> 0"
    and "spline_t s + spline_t_iterator d c s \<le> 1"
    and "length (target_angles d c s) = 6"
  shows "snd (execute_spline_step d c s) =
           [Call_get_spline_pos (spline_t s + D_SPLINE_T c),
            Call_get_spline_pos (spline_t s + spline_t_iterator d c s),
            Config ''/ik_ra_control''
              (map (\<lambda>i. target_angles d c s ! i * get_joint_encoder_multiplier (state s) i +
                          get_joint_encoder_offset (state s) i) [0..<6])]"
proof -
  have "map (\<lambda>i. to_encoder_units (state s) (target_angles d c s) ! i) [0..<6] =
        map (\<lambda>i. target_angles d c s ! i * get_joint_encoder_multiplier (state s) i +
                          get_joint_encoder_offset (state s) i) [0..<6]"
    using assms(6) by (intro map_cong) (simp_all add: to_encoder_units_nth)
  with execute_spline_step_setpoint [OF assms(1,2,4,5)] assms(3) show ?thesis
    by (simp add: publish_config_def)
qed

text \<open>
  Reading such a vector back through the intake mapping \<open>(raw - offset) * multiplier\<close>
  yields each angle times the square of its multiplier: the angle itself when every
  multiplier is \<open>1\<close> or \<open>-1\<close>, for which multiplying and dividing agree.
\<close>

lemma encoder_round_trip:
  assumes "length angles = 6"
  shows "(\<forall>i<6. adjust_encoders st (to_encoder_units st angles) ! i =
            angles ! i * (get_joint_encoder_multiplier st i)\<^sup>2) \<and>
         ((\<forall>i<6. get_joint_encoder_multiplier st i = 1 \<or> get_joint_encoder_multiplier st i = - 1) \<longrightarrow>
            adjust_encoders st (to_encoder_units st angles) = angles)"
proof -
  have n: "adjust_encoders st (to_encoder_units st angles) ! i =
            angles ! i * (get_joint_encoder_multiplier st i)\<^sup>2" if "i < 6" for i
    using that assms
    by (simp add: adjust_encoders_nth to_encoder_units_nth length_to_encoder_units power2_eq_square)
  have "adjust_encoders st (to_encoder_units st angles) = angles"
    if m: "\<forall>i<6. get_joint_encoder_multiplier st i = 1 \<or> get_joint_encoder_multiplier st i = - 1"
  proof (rule nth_equalityI)
    show "length (adjust_encoders st (to_encoder_units st angles)) = length angles"
      by (simp add: length_adjust_encoders length_to_encoder_units)
  next
    fix i assume "i < length (adjust_encoders st (to_encoder_units st angles))"
    then have i: "i < 6" using assms by (simp add: length_adjust_encoders length_to_encoder_units)
    with m have "(get_joint_encoder_multiplier st i)\<^sup>2 = 1" by auto
    with n [OF i] show "adjust_encoders st (to_encoder_units st angles) ! i = angles ! i" by simp
  qed
  with n show ?thesis by blast
qed

text \<open>
  Claim C7 asks for the emitted setpoint to be the inverse of the intake mapping for every
  offset and multiplier. The code multiplies on the way out (line 313) where the inverse of
  the intake (lines 49-50) divides, so the claim fails on the code for a multiplier other
  than \<open>1\<close> and \<open>-1\<close>. In hardware mode, with multiplier 2 and offset \<open>0.5\<close>, the first tick of
  the straight run has the setpoint \<open>0.015\<close> for joint A and publishes \<open>0.53\<close> for it; that
  value, received as an encoder reading, is the angle \<open>0.06\<close>.
\<close>

theorem scaled_setpoint_read_back_differs:
  "\<not> sim_mode example_hardware \<and>
   get_joint_encoder_multiplier (state example_hardware) 0 = 2 \<and>
   get_joint_encoder_offset (state example_hardware) 0 = 1 / 2 \<and>
   target_angles example_collaborators example_constants example_hardware =
     [3 / 200, 0, 0, 0, 0, 0] \<and>
   snd (execute_spline_step example_collaborators example_constants example_hardware) =
     [Call_get_spline_pos (1 / 20), Call_get_spline_pos (1 / 4),
      Config ''/ik_ra_control'' [53 / 100, 1 / 2, 1 / 2, 1 / 2, 1 / 2, 1 / 2]] \<and>
   msg_angles example_raw_setpoint = [53 / 100, 1 / 2, 1 / 2, 1 / 2, 1 / 2, 1 / 2] \<and>
   adjust_encoders (state example_hardware) (msg_angles example_raw_setpoint) =
     [3 / 50, 0, 0, 0, 0, 0] \<and>
   get_joint_angles (state (fst (arm_position_callback example_collaborators example_constants
     example_hardware example_raw_setpoint))) = [3 / 50, 0, 0, 0, 0, 0] \<and>
   adjust_encoders (state example_hardware)
     (to_encoder_units (state example_hardware)
        (target_angles example_collaborators example_constants example_hardware)) \<noteq>
   target_angles example_collaborators example_constants example_hardware"
  by code_simp

subsection \<open>The arguments of the spline queries\<close>

text \<open>
  Claim C9. Every query of the spline made by a tick is either the lookahead, at
  \<open>spline_t + D_SPLINE_T\<close>, or has an argument of at most 1. On a tick of an execution
  without encoder error the lookahead is the first query; every later query of the tick,
  the setpoint query, has an argument of at most 1, since the tick ends the run before
  it otherwise; and when the spline parameter exceeds \<open>1 - D_SPLINE_T\<close> the argument of
  the lookahead is greater than 1.
\<close>

theorem lookahead_leaves_domain:
  "(\<forall>u. Call_get_spline_pos u \<in> set (snd (execute_spline_step d c s)) \<longrightarrow>
        u = spline_t s + D_SPLINE_T c \<or> u \<le> 1) \<and>
   (enable_execute s \<and> \<not> encoder_error s \<longrightarrow>
      (\<exists>rest. snd (execute_spline_step d c s) =
                Call_get_spline_pos (spline_t s + D_SPLINE_T c) # rest \<and>
              (\<forall>u. Call_get_spline_pos u \<in> set rest \<longrightarrow> u \<le> 1) \<and>
              (1 - D_SPLINE_T c < spline_t s \<longrightarrow> 1 < spline_t s + D_SPLINE_T c)))"
proof -
  let ?mt = "max_time (state s) (get_joint_angles (state s))
               (get_spline_pos d (motion_planner s) (spline_t s + D_SPLINE_T c))"
  let ?t = "spline_t s + spline_t_iterator d c s"
  let ?look = "Call_get_spline_pos (spline_t s + D_SPLINE_T c)"
  have late: "1 - D_SPLINE_T c < spline_t s \<longrightarrow> 1 < spline_t s + D_SPLINE_T c" by auto
  have run: "\<exists>rest. snd (execute_spline_step d c s) = ?look # rest \<and>
              (\<forall>u. Call_get_spline_pos u \<in> set rest \<longrightarrow> u \<le> 1)"
    if en: "enable_execute s" and ok: "\<not> encoder_error s"
  proof -
    consider (still) "?mt = 0" | (over) "?mt \<noteq> 0" "?t > 1" | (go) "?mt \<noteq> 0" "?t \<le> 1"
      by fastforce
    then show ?thesis
    proof cases
      case still
      with en ok have "snd (execute_spline_step d c s) = [?look]"
        by (simp add: execute_spline_step_def Let_def)
      then show ?thesis by simp
    next
      case over
      with en ok have "snd (execute_spline_step d c s) = [?look]"
        by (simp add: execute_spline_step_def Let_def)
      then show ?thesis by simp
    next
      case go
      from execute_spline_step_setpoint [OF en ok go]
      have "snd (execute_spline_step d c s) =
          ?look #
          (Call_get_spline_pos ?t #
           (if \<not> sim_mode s
            then publish_config (to_encoder_units (state s) (target_angles d c s)) ''/ik_ra_control''
            else []))"
        by simp
      moreover have "\<forall>u. Call_get_spline_pos u \<in> set (Call_get_spline_pos ?t #
           (if \<not> sim_mode s
            then publish_config (to_encoder_units (state s) (target_angles d c s)) ''/ik_ra_control''
            else [])) \<longrightarrow> u \<le> 1"
        using go(2) by (auto simp: publish_config_def)
      ultimately show ?thesis by blast
    qed
  qed
  have idle: "\<forall>u. Call_get_spline_pos u \<notin> set (snd (execute_spline_step d c s))"
    if "\<not> (enable_execute s \<and> \<not> encoder_error s)"
  proof (cases "enable_execute s")
    case False
    then show ?thesis by (simp add: execute_spline_step_def)
  next
    case True
    with that have "encoder_error s" by simp
    with True show ?thesis
      by (auto simp: execute_spline_step_def publish_config_def)
  qed
  have all: "\<forall>u. Call_get_spline_pos u \<in> set (snd (execute_spline_step d c s)) \<longrightarrow>
        u = spline_t s + D_SPLINE_T c \<or> u \<le> 1"
  proof (cases "enable_execute s \<and> \<not> encoder_error s")
    case True
    with run obtain rest where "snd (execute_spline_step d c s) = ?look # rest"
      and "\<forall>u. Call_get_spline_pos u \<in> set rest \<longrightarrow> u \<le> 1"
      by blast
    then show ?thesis by auto
  next
    case False
    from idle [OF this] show ?thesis by blast
  qed
  from all run late show ?thesis by blast
qed

text \<open>
  Such a tick is reached: four ticks along the straight spline bring the parameter from 0
  to 1.
\<close>

lemma upt_0_5: "[0..<5] = [0, 1, 2, 3, 4]"
  by code_simp

lemma upt_0_6: "[0..<6] = [0, 1, 2, 3, 4, 5]"
  by code_simp

lemma replicate_6: "replicate 6 v = [v, v, v, v, v, v]"
  by (simp add: numeral_eq_Suc)

lemmas step_eval = execute_spline_step_def example_at_def example_straight_def example_executing_def
  MRoverArm_init_def example_arm_def example_collaborators_def example_constants_def max_time_def
  spline_t_iterator_def target_angles_def clamp_to_limits_def get_joint_angles_def
  get_joint_max_speed_def get_joint_limits_def finish_executing_def Let_def upt_0_5 upt_0_6 replicate_6

lemma example_run_0: "example_straight = example_at 0 0"
  by (simp add: step_eval)

lemma example_step_1:
  "execute_spline_step example_collaborators example_constants (example_at 0 0) =
     (example_at (1 / 4) (3 / 200),
      [Call_get_spline_pos (1 / 20), Call_get_spline_pos (1 / 4)])"
  by (simp add: step_eval)

lemma example_step_2:
  "execute_spline_step example_collaborators example_constants (example_at (1 / 4) (3 / 200)) =
     (example_at (1 / 2) (3 / 100),
      [Call_get_spline_pos (3 / 10), Call_get_spline_pos (1 / 2)])"
  by (simp add: step_eval)

lemma example_step_3:
  "execute_spline_step example_collaborators example_constants (example_at (1 / 2) (3 / 100)) =
     (example_at (3 / 4) (9 / 200),
      [Call_get_spline_pos (11 / 20), Call_get_spline_pos (3 / 4)])"
  by (simp add: step_eval)

lemma example_step_4:
  "execute_spline_step example_collaborators example_constants (example_at (3 / 4) (9 / 200)) =
     (example_at 1 (3 / 50),
      [Call_get_spline_pos (4 / 5), Call_get_spline_pos 1])"
  by (simp add: step_eval)

lemma example_step_5:
  "execute_spline_step example_collaborators example_constants (example_at 1 (3 / 50)) =
     (finish_executing (example_at 1 (3 / 50)),
      [Call_get_spline_pos (21 / 20)])"
  by (simp add: step_eval)

lemma example_run_4: "example_run 4 = example_at 1 (3 / 50)"
  by (simp add: example_run_def numeral_eq_Suc example_run_0 example_step_1 example_step_2 example_step_3 example_step_4)

text \<open>
  The theorem after these four ticks, where the lookahead asks for the spline at \<open>1.05\<close>
  and the run ends. On the first tick of the same run the setpoint query is at \<open>0.25\<close>; on
  the first tick along the flat spline the increment is \<open>15.36\<close> and no setpoint is
  queried.
\<close>

theorem lookahead_leaves_domain_witness:
  "example_run 4 = example_at 1 (3 / 50) \<and>
   (\<exists>rest. snd (execute_spline_step example_collaborators example_constants (example_run 4)) =
              Call_get_spline_pos (21 / 20) # rest \<and>
            (1::real) < 21 / 20 \<and>
            (\<forall>u. Call_get_spline_pos u \<in> set rest \<longrightarrow> u \<le> 1)) \<and>
   snd (execute_spline_step example_collaborators example_constants example_straight) =
     [Call_get_spline_pos (1 / 20), Call_get_spline_pos (1 / 4)] \<and>
   spline_t_iterator example_collaborators example_constants example_slow = 384 / 25 \<and>
   snd (execute_spline_step example_collaborators example_constants example_slow) =
     [Call_get_spline_pos (1 / 20)]"
proof -
  have a: "enable_execute (example_run 4)"
    unfolding example_run_4 by (simp add: step_eval)
  have b: "\<not> encoder_error (example_run 4)"
    unfolding example_run_4 by (simp add: step_eval)
  have t: "spline_t (example_run 4) = 1"
    unfolding example_run_4 by (simp add: step_eval)
  have D: "D_SPLINE_T example_constants = 1 / 20"
    by (simp add: example_constants_def)
  have c: "1 - D_SPLINE_T example_constants < spline_t (example_run 4)"
    unfolding t D by simp
  have e: "spline_t (example_run 4) + D_SPLINE_T example_constants = 21 / 20"
    unfolding t D by simp
  from lookahead_leaves_domain [of example_collaborators example_constants "example_run 4"] a b c
  obtain rest where
    "snd (execute_spline_step example_collaborators example_constants (example_run 4)) =
       Call_get_spline_pos (spline_t (example_run 4) + D_SPLINE_T example_constants) # rest"
    and "1 < spline_t (example_run 4) + D_SPLINE_T example_constants"
    and "\<forall>u. Call_get_spline_pos u \<in> set rest \<longrightarrow> u \<le> 1"
    by blast
  then have late: "\<exists>rest. snd (execute_spline_step example_collaborators example_constants
        (example_run 4)) = Call_get_spline_pos (21 / 20) # rest \<and> (1::real) < 21 / 20 \<and>
     (\<forall>u. Call_get_spline_pos u \<in> set rest \<longrightarrow> u \<le> 1)"
    unfolding e by blast
  have first: "snd (execute_spline_step example_collaborators example_constants example_straight) =
     [Call_get_spline_pos (1 / 20), Call_get_spline_pos (1 / 4)]"
    by code_simp
  have it: "spline_t_iterator example_collaborators example_constants example_slow = 384 / 25"
    by code_simp
  have slow: "snd (execute_spline_step example_collaborators example_constants example_slow) =
     [Call_get_spline_pos (1 / 20)]"
    by code_simp
  from example_run_4 late first it slow show ?thesis by blast
qed

end
